theory Spec2Isabelle
  imports Complex_Main "HOL-Library.AList"
begin

section \<open>Data model\<close>

text \<open>
  The entities the sample script and the tasks endpoint work on. Field names follow the
  Python attributes, prefixed by the entity since several entities have an \<open>id\<close> and
  a \<open>name\<close>. An attribute that may be \<open>None\<close> is an \<open>option\<close>.
\<close>

record schedule_item =
  sch_id :: string
  sch_name :: string

datatype py_error =
    ValueError string
  | KeyError string
  | IndexError
  | AttributeError
  | TypeError
  | EOFError
  | ServerResponseError string string
  | SystemExit int

section \<open>Schedule lookup by name\<close>

text \<open>
  \<^verbatim>\<open>find_schedule(server, schedule_name)\<close>: the listing \<open>list(TSC.Pager(server.schedules.get))\<close>
  is the parameter \<open>schedules\<close>; the \<open>for\<close> loop with its early \<open>return\<close> is
  \<open>find_schedule_loop\<close>.
\<close>

fun find_schedule_loop :: "schedule_item list \<Rightarrow> string \<Rightarrow> schedule_item option" where
  "find_schedule_loop [] schedule_name = None"
| "find_schedule_loop (schedule # schedules) schedule_name =
     (if schedule_name = sch_name schedule then Some schedule
      else find_schedule_loop schedules schedule_name)"

definition find_schedule :: "schedule_item list \<Rightarrow> string option \<Rightarrow> schedule_item option" where
  "find_schedule schedules schedule_name =
     (case schedule_name of
        None \<Rightarrow> None
      | Some n \<Rightarrow> find_schedule_loop schedules n)"

section \<open>The tasks endpoint\<close>








section \<open>The project tree\<close>

text \<open>
  A project stores the id of its parent; a root has \<open>parent_id = None\<close>. The script
  keeps the projects of a site either as the list the pager returns or as the dictionary
  \<^verbatim>\<open>{project.id: project for project in TSC.Pager(server.projects)}\<close>, in which a later
  project with the same id replaces an earlier one.
\<close>

record project_item =
  proj_id :: string
  proj_name :: string
  proj_parent_id :: "string option"

definition project_dict :: "project_item list \<Rightarrow> (string \<rightharpoonup> project_item)" where
  "project_dict projects = fold (\<lambda>project d. d(proj_id project \<mapsto> project)) projects Map.empty"

subsection \<open>The path of a project\<close>

text \<open>
  \<^verbatim>\<open>find_project_path(project, all_projects, path)\<close> calls itself on the parent until it
  meets a root. Nothing in the function bounds the recursion, so it is a partial function:
  the value \<open>None\<close> means that the call never returns. \<open>all_projects[project.parent_id]\<close>
  raises \<open>KeyError\<close> when the parent is not in the dictionary.
\<close>

partial_function (option) find_project_path ::
  "project_item \<Rightarrow> (string \<rightharpoonup> project_item) \<Rightarrow> string \<Rightarrow> (py_error + string) option" where
  "find_project_path project all_projects path =
     (let path = (if length path = 0 then proj_name project
                  else proj_name project @ ''/'' @ path) in
      case proj_parent_id project of
        None \<Rightarrow> Some (Inr path)
      | Some parent_id \<Rightarrow>
          (case all_projects parent_id of
             None \<Rightarrow> Some (Inl (KeyError parent_id))
           | Some parent \<Rightarrow> find_project_path parent all_projects path))"

text \<open>
  The same recursion cut off after \<open>depth\<close> nested calls; it measures how deep a call of
  \<open>find_project_path\<close> goes (\<open>None\<close>: not finished within \<open>depth\<close> calls).
\<close>

fun find_project_path_depth ::
  "nat \<Rightarrow> project_item \<Rightarrow> (string \<rightharpoonup> project_item) \<Rightarrow> string \<Rightarrow> (py_error + string) option" where
  "find_project_path_depth 0 project all_projects path = None"
| "find_project_path_depth (Suc depth) project all_projects path =
     (let path = (if length path = 0 then proj_name project
                  else proj_name project @ ''/'' @ path) in
      case proj_parent_id project of
        None \<Rightarrow> Some (Inr path)
      | Some parent_id \<Rightarrow>
          (case all_projects parent_id of
             None \<Rightarrow> Some (Inl (KeyError parent_id))
           | Some parent \<Rightarrow> find_project_path_depth depth parent all_projects path))"

text \<open>
  The parent relation of a dictionary, and the chain of ancestors of a project, root
  first and ending with the project itself. A chain exists exactly when following the
  parent ids from the project ends at a root without leaving the dictionary.
\<close>

definition parent_of :: "(string \<rightharpoonup> project_item) \<Rightarrow> project_item \<Rightarrow> project_item \<Rightarrow> bool" where
  "parent_of all_projects project parent =
     (case proj_parent_id project of
        None \<Rightarrow> False
      | Some parent_id \<Rightarrow> all_projects parent_id = Some parent)"

inductive ancestry :: "(string \<rightharpoonup> project_item) \<Rightarrow> project_item \<Rightarrow> project_item list \<Rightarrow> bool" where
  root: "proj_parent_id project = None \<Longrightarrow> ancestry all_projects project [project]"
| child: "parent_of all_projects project parent \<Longrightarrow> ancestry all_projects parent chain \<Longrightarrow>
     ancestry all_projects project (chain @ [project])"

definition prepend_name :: "project_item \<Rightarrow> string \<Rightarrow> string" where
  "prepend_name project path =
     (if length path = 0 then proj_name project else proj_name project @ ''/'' @ path)"

definition path_of_chain :: "project_item list \<Rightarrow> string \<Rightarrow> string" where
  "path_of_chain chain path = foldr prepend_name chain path"

text \<open>
  Python's \<^verbatim>\<open>s.split(sep)\<close> for a one-character separator: the pieces between the
  separators, empty pieces included; a string without separator is one piece.
\<close>

fun split :: "char \<Rightarrow> string \<Rightarrow> string list" where
  "split sep [] = [[]]"
| "split sep (c # cs) =
     (if c = sep then [] # split sep cs
      else (c # hd (split sep cs)) # tl (split sep cs))"

text \<open>
  The walk back of the path round trip, in the words of the specification: starting
  above the roots, go at each name to the child of the current project that has this
  name (the first one in the listing), and return the id that is reached. It is not a
  function of the script.
\<close>

fun rewalk_by_name :: "project_item list \<Rightarrow> string option \<Rightarrow> string list \<Rightarrow> string option" where
  "rewalk_by_name projects current [] = current"
| "rewalk_by_name projects current (name # names) =
     (case find (\<lambda>child. proj_parent_id child = current \<and> proj_name child = name) projects of
        None \<Rightarrow> None
      | Some child \<Rightarrow> rewalk_by_name projects (Some (proj_id child)) names)"

fun linked :: "project_item list \<Rightarrow> string option \<Rightarrow> project_item list \<Rightarrow> bool" where
  "linked projects current [] = True"
| "linked projects current (c # cs) =
     (c \<in> set projects \<and> proj_parent_id c = current \<and> linked projects (Some (proj_id c)) cs)"

definition unique_sibling_names :: "project_item list \<Rightarrow> bool" where
  "unique_sibling_names projects =
     (\<forall>x \<in> set projects. \<forall>y \<in> set projects.
        proj_parent_id x = proj_parent_id y \<and> proj_name x = proj_name y \<longrightarrow> proj_id x = proj_id y)"

subsection \<open>The descendants of a project\<close>

text \<open>
  \<^verbatim>\<open>find_projects_to_update(project, all_projects, projects_to_update)\<close> appends the
  project to the list it is given and calls itself on every project of \<open>all_projects\<close>
  whose \<open>parent_id\<close> is the project's id. The list is passed on and returned. The
  recursion is not structural (a project that is its own parent makes it run forever), so
  the model carries the number of nested calls that are still allowed: \<open>None\<close> means
  that the call did not finish within \<open>depth\<close> nested calls.
\<close>

fun for_each_child ::
  "(project_item \<Rightarrow> project_item list \<Rightarrow> project_item list option) \<Rightarrow> project_item list
     \<Rightarrow> project_item list \<Rightarrow> project_item list option" where
  "for_each_child body [] projects_to_update = Some projects_to_update"
| "for_each_child body (child # children) projects_to_update =
     (case body child projects_to_update of
        None \<Rightarrow> None
      | Some projects_to_update' \<Rightarrow> for_each_child body children projects_to_update')"

fun find_projects_to_update ::
  "nat \<Rightarrow> project_item \<Rightarrow> project_item list \<Rightarrow> project_item list \<Rightarrow> project_item list option" where
  "find_projects_to_update 0 project all_projects projects_to_update = None"
| "find_projects_to_update (Suc depth) project all_projects projects_to_update =
     (let projects_to_update = projects_to_update @ [project];
          children_projects =
            filter (\<lambda>child. proj_parent_id child = Some (proj_id project)) all_projects
      in if length children_projects = 0 then Some projects_to_update
         else for_each_child (\<lambda>child acc. find_projects_to_update depth child all_projects acc)
                children_projects projects_to_update)"

definition find_project_ids_to_update ::
  "nat \<Rightarrow> project_item list \<Rightarrow> project_item \<Rightarrow> string set option" where
  "find_project_ids_to_update depth all_projects project =
     (case find_projects_to_update depth project all_projects [] of
        None \<Rightarrow> None
      | Some projects_to_update \<Rightarrow> Some (set (map proj_id projects_to_update)))"

text \<open>
  A list of projects is a forest when the parent ids admit a rank that grows from child to
  parent; \<open>has_parent_in ps p\<close> says that the parent of \<open>p\<close> is one of \<open>ps\<close>.
\<close>

definition forest_rank :: "(string \<Rightarrow> nat) \<Rightarrow> project_item list \<Rightarrow> bool" where
  "forest_rank rank all_projects =
     (\<forall>child \<in> set all_projects. \<forall>parent_id.
        proj_parent_id child = Some parent_id \<longrightarrow> rank (proj_id child) < rank parent_id)"

definition has_parent_in :: "project_item list \<Rightarrow> project_item \<Rightarrow> bool" where
  "has_parent_in ps p = (\<exists>q \<in> set ps. proj_parent_id p = Some (proj_id q))"

section \<open>Tasks, workbooks and the server\<close>

text \<open>
  A task may have no target (\<open>task.target\<close> is \<open>None\<close> for a task that refers to no
  workbook or data source). A Python dictionary whose order of insertion matters is an
  association list kept by \<open>AList.update\<close>: a new key goes to the end, a known key keeps
  its place and takes the new value; \<open>map_of\<close> looks a key up.
\<close>

record target_item =
  tgt_id :: string
  tgt_type :: string

record task_item =
  tsk_id :: string
  tsk_target :: "target_item option"
  tsk_schedule_item :: schedule_item

record workbook_item =
  wb_id :: string
  wb_name :: string
  wb_project_id :: string
  wb_project_name :: string

type_synonym ('k, 'v) dict = "('k \<times> 'v) list"

text \<open>
  The calls the script makes on the server. \<open>server.tasks.delete\<close> and
  \<open>server.schedules.add_to_schedule\<close> are not part of the script: they are parameters that
  take the state of the server and answer with a result or an exception and the next
  state. \<open>TaskItem.Type.MaterializeViews\<close> is the string \<open>materializeViews\<close>.
\<close>

datatype api_call =
    TasksDelete string string
  | SchedulesAddToSchedule string string string

record 'srv server_api =
  tasks_delete :: "'srv \<Rightarrow> string \<Rightarrow> string \<Rightarrow> (py_error + unit) \<times> 'srv"
  schedules_add_to_schedule ::
    "'srv \<Rightarrow> string \<Rightarrow> workbook_item \<Rightarrow> string \<Rightarrow> (py_error + unit) \<times> 'srv"

definition MaterializeViews :: string where
  "MaterializeViews = ''materializeViews''"

text \<open>
  What the script writes: a line of text, the prompt of \<open>input\<close>, or a table with its
  header and rows. The state of a run: the server, the calls made so far, the lines still
  to be read from the standard input, the output so far, the counter of the loop
  (\<open>num_removed\<close>, \<open>num_added\<close>) and the rows of the table.
\<close>

datatype out_event = Print string | Prompt string | PrintTable "string list" "string list list"

record 'srv run =
  r_server :: 'srv
  r_calls :: "api_call list"
  r_stdin :: "string list"
  r_out :: "out_event list"
  r_count :: nat
  r_table :: "string list list"

definition start_run :: "'srv \<Rightarrow> string list \<Rightarrow> 'srv run" where
  "start_run srv stdin =
     \<lparr>r_server = srv, r_calls = [], r_stdin = stdin, r_out = [], r_count = 0, r_table = []\<rparr>"

definition label :: "workbook_item \<Rightarrow> string" where
  "label workbook = wb_project_name workbook @ ''/'' @ wb_name workbook"

text \<open>
  \<^verbatim>\<open>except ServerResponseError as error: print(...)\<close>: a \<open>ServerResponseError\<close> is
  printed and the loop goes on; any other exception leaves the function.
\<close>

definition except_server_response_error :: "py_error \<Rightarrow> 'srv run \<Rightarrow> py_error option \<times> 'srv run" where
  "except_server_response_error e st =
     (case e of
        ServerResponseError summary detail \<Rightarrow>
          (None, st\<lparr>r_out := r_out st @ [Print (summary @ '': '' @ detail)]\<rparr>)
      | _ \<Rightarrow> (Some e, st))"

subsection \<open>Removing workbooks from their schedule\<close>

text \<open>
  \<^verbatim>\<open>remove_materialized_views_tasks(server, tasks, workbook_id_to_workbook)\<close>. The loop
  over the tasks is \<open>remove_loop\<close>; its first component is the exception that left the
  loop, if any. The function returns \<open>False\<close> on its two early exits and \<open>None\<close> at
  its end.
\<close>

fun remove_loop ::
  "'srv server_api \<Rightarrow> (string, workbook_item) dict \<Rightarrow> task_item list \<Rightarrow> 'srv run
     \<Rightarrow> py_error option \<times> 'srv run" where
  "remove_loop api workbook_id_to_workbook [] st = (None, st)"
| "remove_loop api workbook_id_to_workbook (task # tasks) st =
     (case tsk_target task of
        None \<Rightarrow> (Some AttributeError, st)
      | Some target \<Rightarrow>
          (case map_of workbook_id_to_workbook (tgt_id target) of
             None \<Rightarrow> remove_loop api workbook_id_to_workbook tasks st
           | Some workbook \<Rightarrow>
               (case tasks_delete api (r_server st) (tsk_id task) ''materializeViews'' of
                  (Inr u, srv) \<Rightarrow>
                    remove_loop api workbook_id_to_workbook tasks
                      (st\<lparr>r_server := srv,
                          r_calls := r_calls st @ [TasksDelete (tsk_id task) ''materializeViews''],
                          r_count := r_count st + 1,
                          r_table := r_table st
                            @ [[label workbook, sch_name (tsk_schedule_item task)]]\<rparr>)
                | (Inl e, srv) \<Rightarrow>
                    (case except_server_response_error e
                            (st\<lparr>r_server := srv,
                                r_calls := r_calls st
                                  @ [TasksDelete (tsk_id task) ''materializeViews'']\<rparr>) of
                       (None, st') \<Rightarrow> remove_loop api workbook_id_to_workbook tasks st'
                     | (Some e', st') \<Rightarrow> (Some e', st')))))"

definition remove_materialized_views_tasks ::
  "'srv server_api \<Rightarrow> task_item list option \<Rightarrow> (string, workbook_item) dict option \<Rightarrow> 'srv run
     \<Rightarrow> (py_error + bool option) \<times> 'srv run" where
  "remove_materialized_views_tasks api tasks workbook_id_to_workbook st =
     (if workbook_id_to_workbook = None \<or> length (the workbook_id_to_workbook) = 0 then
        (Inr (Some False),
         st\<lparr>r_out := r_out st @ [Print ''Unable to find any workbooks to remove schedule for'']\<rparr>)
      else if tasks = None \<or> length (the tasks) = 0 then
        (Inr (Some False),
         st\<lparr>r_out := r_out st @ [Print ''Unable to find any MaterializeViews tasks'']\<rparr>)
      else
        (case remove_loop api (the workbook_id_to_workbook) (the tasks)
                (st\<lparr>r_count := 0, r_table := []\<rparr>) of
           (Some e, st') \<Rightarrow> (Inl e, st')
         | (None, st') \<Rightarrow>
             if r_count st' > 0 then
               (Inr None,
                st'\<lparr>r_out := r_out st'
                   @ [PrintTable [''Workbook'', ''Removed From Schedule''] (r_table st')]\<rparr>)
             else
               (Inr None,
                st'\<lparr>r_out := r_out st'
                   @ [Print ''Unable to find any workbooks to remove MaterializeViews for'']\<rparr>)))"

subsection \<open>Adding workbooks to a schedule\<close>

text \<open>
  \<^verbatim>\<open>confirm(message)\<close> asks until the answer, in lower case, is \<open>y\<close> or \<open>n\<close>;
  \<open>input\<close> raises \<open>EOFError\<close> when the standard input has no line left. The result comes
  with the lines that remain and the prompts that were written. \<open>lower\<close> is
  \<^verbatim>\<open>str.lower\<close> on the ASCII letters.
\<close>

definition lower_char :: "char \<Rightarrow> char" where
  "lower_char c =
     (case map_of (zip ''ABCDEFGHIJKLMNOPQRSTUVWXYZ'' ''abcdefghijklmnopqrstuvwxyz'') c of
        None \<Rightarrow> c
      | Some l \<Rightarrow> l)"

definition lower :: "string \<Rightarrow> string" where
  "lower s = map lower_char s"

fun confirm :: "string \<Rightarrow> string list \<Rightarrow> (py_error + bool) \<times> string list \<times> out_event list" where
  "confirm message [] = (Inl EOFError, [], [Prompt message])"
| "confirm message (line # lines) =
     (let answer = lower line in
      if answer \<in> set [''y'', ''n''] then (Inr (answer = ''y''), lines, [Prompt message])
      else (case confirm message lines of (r, rest, prompts) \<Rightarrow> (r, rest, Prompt message # prompts)))"

text \<open>
  The first loop of \<^verbatim>\<open>add_to_materialized_views_schedule\<close>: the dictionary from the id
  of a workbook to the task that targets it, over the tasks whose target has the type
  \<open>workbook\<close>. A later task of the listing replaces an earlier one for the same
  workbook; a task without target raises \<open>AttributeError\<close>.
\<close>

fun workbook_id_to_task_loop ::
  "task_item list \<Rightarrow> (string, task_item) dict \<Rightarrow> py_error + (string, task_item) dict" where
  "workbook_id_to_task_loop [] workbook_id_to_task = Inr workbook_id_to_task"
| "workbook_id_to_task_loop (task # tasks) workbook_id_to_task =
     (case tsk_target task of
        None \<Rightarrow> Inl AttributeError
      | Some target \<Rightarrow>
          if tgt_type target = ''workbook'' then
            workbook_id_to_task_loop tasks (AList.update (tgt_id target) task workbook_id_to_task)
          else workbook_id_to_task_loop tasks workbook_id_to_task)"

text \<open>
  The body of the second loop, for one workbook. \<open>add_membership\<close> is its tail from
  \<open>server.schedules.add_to_schedule\<close> on.
\<close>

definition add_membership ::
  "'srv server_api \<Rightarrow> schedule_item \<Rightarrow> workbook_item \<Rightarrow> 'srv run \<Rightarrow> py_error option \<times> 'srv run" where
  "add_membership api schedule workbook st =
     (case schedules_add_to_schedule api (r_server st) (sch_id schedule) workbook ''materializeViews'' of
        (Inr u, srv) \<Rightarrow>
          (None,
           st\<lparr>r_server := srv,
              r_calls := r_calls st
                @ [SchedulesAddToSchedule (sch_id schedule) (wb_id workbook) ''materializeViews''],
              r_count := r_count st + 1,
              r_table := r_table st @ [[label workbook, sch_name schedule]]\<rparr>)
      | (Inl e, srv) \<Rightarrow>
          except_server_response_error e
            (st\<lparr>r_server := srv,
                r_calls := r_calls st
                  @ [SchedulesAddToSchedule (sch_id schedule) (wb_id workbook) ''materializeViews'']\<rparr>))"

definition already_on_schedule :: "workbook_item \<Rightarrow> task_item \<Rightarrow> string" where
  "already_on_schedule workbook task =
     ''Workbook '' @ [CHR 0x22] @ label workbook @ [CHR 0x22] @ '' is already on schedule ''
       @ [CHR 0x22] @ sch_name (tsk_schedule_item task) @ [CHR 0x22]"

definition replace_question :: "schedule_item \<Rightarrow> string" where
  "replace_question schedule = ''Do you want to replace it with '' @ sch_name schedule @ '' [Y/N]? ''"

definition add_workbook ::
  "'srv server_api \<Rightarrow> (string, task_item) dict \<Rightarrow> schedule_item \<Rightarrow> workbook_item \<Rightarrow> 'srv run
     \<Rightarrow> py_error option \<times> 'srv run" where
  "add_workbook api workbook_id_to_task schedule workbook st =
     (case map_of workbook_id_to_task (wb_id workbook) of
        None \<Rightarrow> add_membership api schedule workbook st
      | Some task \<Rightarrow>
          (let st1 = st\<lparr>r_out := r_out st @ [Print (already_on_schedule workbook task)]\<rparr> in
           if sch_id (tsk_schedule_item task) = sch_id schedule then
             (None, st1\<lparr>r_table := r_table st1 @ [[label workbook, sch_name schedule]]\<rparr>)
           else
             (case confirm (replace_question schedule) (r_stdin st1) of
                (answer, rest, prompts) \<Rightarrow>
                  (let st2 = st1\<lparr>r_stdin := rest, r_out := r_out st1 @ prompts\<rparr> in
                   case answer of
                     Inl e \<Rightarrow> except_server_response_error e st2
                   | Inr False \<Rightarrow>
                       (None,
                        st2\<lparr>r_table := r_table st2
                           @ [[label workbook, sch_name (tsk_schedule_item task)]]\<rparr>)
                   | Inr True \<Rightarrow>
                       (case tasks_delete api (r_server st2) (tsk_id task) MaterializeViews of
                          (Inr u, srv) \<Rightarrow>
                            add_membership api schedule workbook
                              (st2\<lparr>r_server := srv,
                                   r_calls := r_calls st2
                                     @ [TasksDelete (tsk_id task) MaterializeViews]\<rparr>)
                        | (Inl e, srv) \<Rightarrow>
                            except_server_response_error e
                              (st2\<lparr>r_server := srv,
                                   r_calls := r_calls st2
                                     @ [TasksDelete (tsk_id task) MaterializeViews]\<rparr>))))))"

fun add_loop ::
  "'srv server_api \<Rightarrow> (string, task_item) dict \<Rightarrow> schedule_item \<Rightarrow> workbook_item list \<Rightarrow> 'srv run
     \<Rightarrow> py_error option \<times> 'srv run" where
  "add_loop api workbook_id_to_task schedule [] st = (None, st)"
| "add_loop api workbook_id_to_task schedule (workbook # workbooks) st =
     (case add_workbook api workbook_id_to_task schedule workbook st of
        (Some e, st') \<Rightarrow> (Some e, st')
      | (None, st') \<Rightarrow> add_loop api workbook_id_to_task schedule workbooks st')"

definition add_to_materialized_views_schedule ::
  "'srv server_api \<Rightarrow> task_item list option \<Rightarrow> schedule_item option
     \<Rightarrow> (string, workbook_item) dict option \<Rightarrow> 'srv run \<Rightarrow> (py_error + unit) \<times> 'srv run" where
  "add_to_materialized_views_schedule api tasks schedule workbook_id_to_workbook st =
     (if schedule = None \<or> workbook_id_to_workbook = None then (Inr (), st)
      else
        (case (case tasks of None \<Rightarrow> Inr [] | Some ts \<Rightarrow> workbook_id_to_task_loop ts []) of
           Inl e \<Rightarrow> (Inl e, st)
         | Inr workbook_id_to_task \<Rightarrow>
             (case add_loop api workbook_id_to_task (the schedule)
                     (map snd (the workbook_id_to_workbook)) (st\<lparr>r_count := 0, r_table := []\<rparr>) of
                (Some e, st') \<Rightarrow> (Inl e, st')
              | (None, st') \<Rightarrow>
                  (Inr (),
                   st'\<lparr>r_out := r_out st'
                      @ (if r_count st' > 0 then
                           [PrintTable [''Project/Workbook'', ''Added to or Remain on Schedule'']
                              (r_table st')]
                         else [])
                      @ [Print [CHR 0x0A]]\<rparr>))))"

subsection \<open>What a run of the two loops is compared with\<close>

text \<open>
  The tasks that \<open>remove_materialized_views_tasks\<close> is to delete are those whose target id is
  a key of the requested dictionary. \<open>replay_deletes\<close> asks the server, one task after
  the other, to delete them and collects the answers with the last state of the server.
\<close>

definition requested :: "(string, workbook_item) dict \<Rightarrow> task_item \<Rightarrow> bool" where
  "requested workbook_id_to_workbook task =
     (case tsk_target task of
        None \<Rightarrow> False
      | Some target \<Rightarrow> map_of workbook_id_to_workbook (tgt_id target) \<noteq> None)"

fun replay_deletes ::
  "'srv server_api \<Rightarrow> 'srv \<Rightarrow> task_item list \<Rightarrow> (task_item \<times> (py_error + unit)) list \<times> 'srv" where
  "replay_deletes api srv [] = ([], srv)"
| "replay_deletes api srv (task # tasks) =
     (case tasks_delete api srv (tsk_id task) ''materializeViews'' of
        (answer, srv') \<Rightarrow>
          (case replay_deletes api srv' tasks of
             (answers, srv'') \<Rightarrow> ((task, answer) # answers, srv'')))"

definition removed_row :: "(string, workbook_item) dict \<Rightarrow> task_item \<Rightarrow> string list" where
  "removed_row workbook_id_to_workbook task =
     [label (the (map_of workbook_id_to_workbook (tgt_id (the (tsk_target task))))),
      sch_name (tsk_schedule_item task)]"

definition removed :: "(task_item \<times> (py_error + unit)) list \<Rightarrow> task_item list" where
  "removed answers = map fst (filter (\<lambda>(task, answer). \<not> isl answer) answers)"

definition reported :: "(task_item \<times> (py_error + unit)) list \<Rightarrow> out_event list" where
  "reported answers =
     concat (map (\<lambda>(task, answer).
        case answer of
          Inl (ServerResponseError summary detail) \<Rightarrow> [Print (summary @ '': '' @ detail)]
        | _ \<Rightarrow> []) answers)"

definition only_server_response_errors :: "'srv server_api \<Rightarrow> bool" where
  "only_server_response_errors api =
     (\<forall>srv i ty e. fst (tasks_delete api srv i ty) = Inl e \<longrightarrow>
        (\<exists>summary detail. e = ServerResponseError summary detail))"

text \<open>
  The task that is on record for a workbook when the listing has been read: the last task
  of the listing whose target has the type \<open>workbook\<close> and the id of the workbook.
\<close>

definition targets_workbook :: "string \<Rightarrow> task_item \<Rightarrow> bool" where
  "targets_workbook i task =
     (case tsk_target task of
        None \<Rightarrow> False
      | Some target \<Rightarrow> tgt_type target = ''workbook'' \<and> tgt_id target = i)"

definition existing_task :: "task_item list \<Rightarrow> string \<Rightarrow> task_item option" where
  "existing_task tasks i =
     (case filter (targets_workbook i) tasks of
        [] \<Rightarrow> None
      | t # ts \<Rightarrow> Some (last (t # ts)))"

section \<open>Creating a schedule\<close>

subsection \<open>The arguments of the command line\<close>







subsection \<open>Numbers\<close>

text \<open>
  The built-in functions \<open>float\<close> and \<open>int\<close> are parameters: each maps a value to the
  number it reads or to the exception it raises. A float is a real number, an infinity
  or not a number; the chained comparison \<^verbatim>\<open>lo <= x <= hi\<close> is false for the last three.
  Comparing an integer with a string raises \<open>TypeError\<close>.
\<close>

datatype pyfloat = Finite real | PosInf | NegInf | NaN






subsection \<open>Validation\<close>










subsection \<open>Signing in and creating the schedule\<close>


























section \<open>Workbooks from a list of paths\<close>

text \<open>
  The strings of Python that the functions of this section use. \<^verbatim>\<open>str.isspace\<close> holds
  for a non-empty string of white space; \<^verbatim>\<open>str.rstrip()\<close> removes the white space at the
  end; \<^verbatim>\<open>sep.join(pieces)\<close> puts the separator between the pieces. The white space
  with a code below 256 is the tab, the line feed, the vertical tab, the form feed, the carriage
  return, the four separators \<open>0x1C\<close> to \<open>0x1F\<close>, the space, the next line \<open>0x85\<close> and the
  no-break space \<open>0xA0\<close>.
\<close>

definition is_space :: "char \<Rightarrow> bool" where
  "is_space c \<longleftrightarrow> c \<in> set [CHR 0x09, CHR 0x0A, CHR 0x0B, CHR 0x0C, CHR 0x0D,
     CHR 0x1C, CHR 0x1D, CHR 0x1E, CHR 0x1F, CHR 0x20, CHR 0x85, CHR 0xA0]"

definition isspace :: "string \<Rightarrow> bool" where
  "isspace s \<longleftrightarrow> s \<noteq> [] \<and> list_all is_space s"

definition rstrip :: "string \<Rightarrow> string" where
  "rstrip s = rev (dropWhile is_space (rev s))"

fun join :: "string \<Rightarrow> string list \<Rightarrow> string" where
  "join sep [] = []"
| "join sep [piece] = piece"
| "join sep (piece # next_piece # pieces) = piece @ sep @ join sep (next_piece # pieces)"

subsection \<open>Reading the list\<close>

text \<open>
  \<^verbatim>\<open>sanitize_workbook_list(file_name, file_type)\<close>. The files of the machine are a
  parameter: \<open>files file_name\<close> is the list of the lines of the file, each with its line
  end, and \<open>None\<close> when \<^verbatim>\<open>os.path.isfile\<close> is false. For a \<open>file_type\<close> other than
  \<^verbatim>\<open>name\<close> and \<^verbatim>\<open>path\<close> the function falls off its end and returns Python's
  \<open>None\<close>, here the result \<open>None\<close>.
\<close>

definition sanitize_workbook_list ::
  "(string \<Rightarrow> string list option) \<Rightarrow> string \<Rightarrow> string \<Rightarrow> string list option \<times> out_event list" where
  "sanitize_workbook_list files file_name file_type =
     (case files file_name of
        None \<Rightarrow> (Some [], [Print (''Invalid file name '' @ [CHR 0x27] @ file_name @ [CHR 0x27])])
      | Some file_list \<Rightarrow>
          if file_type = ''name'' then
            (Some (map rstrip (filter (\<lambda>workbook. \<not> isspace workbook) file_list)), [])
          else if file_type = ''path'' then
            (Some (map rstrip (filter (\<lambda>workbook. \<not> isspace workbook) file_list)), [])
          else (None, []))"

text \<open>
  \<^verbatim>\<open>parse_workbook_path(file_path)\<close> fills a \<^verbatim>\<open>defaultdict(list)\<close>: the name after
  the last \<^verbatim>\<open>/\<close> of a line is the key, the part before it is appended to the list of the
  key. \<open>append_path\<close> is one run of the loop body. Iterating over Python's \<open>None\<close> raises
  \<open>TypeError\<close>.
\<close>

definition append_path ::
  "string \<Rightarrow> (string, string list) dict \<Rightarrow> (string, string list) dict" where
  "append_path workbook_path workbook_path_mapping =
     (let workbook_project = split CHR ''/'' (rstrip workbook_path);
          workbook_name = last workbook_project
      in AList.update workbook_name
           ((case map_of workbook_path_mapping workbook_name of None \<Rightarrow> [] | Some paths \<Rightarrow> paths)
              @ [join ''/'' (butlast workbook_project)])
           workbook_path_mapping)"

definition parse_workbook_path ::
  "(string \<Rightarrow> string list option) \<Rightarrow> string
     \<Rightarrow> (py_error + (string, string list) dict) \<times> out_event list" where
  "parse_workbook_path files file_path =
     (case sanitize_workbook_list files file_path ''path'' of
        (None, out) \<Rightarrow> (Inl TypeError, out)
      | (Some workbook_paths, out) \<Rightarrow> (Inr (fold append_path workbook_paths []), out))"

subsection \<open>Asking the server\<close>

text \<open>
  What the script reads from the server: the listing of the projects
  (\<^verbatim>\<open>TSC.Pager(server.projects)\<close>) and, for a name, the listing of the workbooks that the
  server returns for the filter \<^verbatim>\<open>name eq workbook_name\<close>
  (\<^verbatim>\<open>TSC.Pager(server.workbooks, req_option)\<close>). Both are parameters; a listing counts as
  one query, however many pages the pager fetches for it.
\<close>

record site =
  site_projects :: "project_item list"
  site_workbooks :: "string \<Rightarrow> workbook_item list"

datatype query = QueryProjects | QueryWorkbooks string

text \<open>
  The expression \<^verbatim>\<open>find_project_path(all_projects[workbook.project_id], all_projects, "")\<close>:
  \<open>KeyError\<close> when the project of the workbook is not in the dictionary, \<open>None\<close> when
  \<open>find_project_path\<close> does not return.
\<close>

definition workbook_project_path ::
  "(string \<rightharpoonup> project_item) \<Rightarrow> workbook_item \<Rightarrow> (py_error + string) option" where
  "workbook_project_path all_projects workbook =
     (case all_projects (wb_project_id workbook) of
        None \<Rightarrow> Some (Inl (KeyError (wb_project_id workbook)))
      | Some project \<Rightarrow> find_project_path project all_projects [])"

text \<open>
  The loop over the workbooks that the server returned for one name. \<open>all_paths\<close> is a
  Python set, kept here as a list without repetition; \<^verbatim>\<open>all_paths.remove(path)\<close> raises
  \<open>KeyError\<close> when the path is not in the set.
\<close>

fun workbooks_loop ::
  "(string \<rightharpoonup> project_item) \<Rightarrow> string list \<Rightarrow> workbook_item list
     \<Rightarrow> string list \<Rightarrow> (string, workbook_item) dict
     \<Rightarrow> (py_error + string list \<times> (string, workbook_item) dict) option" where
  "workbooks_loop all_projects workbook_paths [] all_paths workbook_id_to_workbook =
     Some (Inr (all_paths, workbook_id_to_workbook))"
| "workbooks_loop all_projects workbook_paths (workbook # workbooks) all_paths
       workbook_id_to_workbook =
     (case workbook_project_path all_projects workbook of
        None \<Rightarrow> None
      | Some (Inl e) \<Rightarrow> Some (Inl e)
      | Some (Inr path) \<Rightarrow>
          if path \<in> set workbook_paths then
            if path \<in> set all_paths then
              workbooks_loop all_projects workbook_paths workbooks (removeAll path all_paths)
                (AList.update (wb_id workbook) workbook workbook_id_to_workbook)
            else Some (Inl (KeyError path))
          else workbooks_loop all_projects workbook_paths workbooks all_paths
                 workbook_id_to_workbook)"

definition cannot_find :: "string \<Rightarrow> string \<Rightarrow> out_event" where
  "cannot_find workbook_name path =
     Print (''Cannot find workbook path: '' @ (path @ ''/'' @ workbook_name)
        @ '', each line should only contain one workbook path'')"

text \<open>
  The loop over the names. It gives what the run did, the queries it made and the lines it
  printed, and how it ended: with the dictionary, with an exception, or not at all
  (\<open>None\<close>). The language does not fix the order in which a set is gone through; the
  model prints the paths that are left in the order of the list that stands for the set.
\<close>

fun names_loop ::
  "(string \<rightharpoonup> project_item) \<Rightarrow> (string \<Rightarrow> workbook_item list) \<Rightarrow> (string \<times> string list) list
     \<Rightarrow> query list \<Rightarrow> out_event list \<Rightarrow> (string, workbook_item) dict
     \<Rightarrow> (py_error + (string, workbook_item) dict) option \<times> query list \<times> out_event list" where
  "names_loop all_projects workbooks_named [] queries out workbook_id_to_workbook =
     (Some (Inr workbook_id_to_workbook), queries, out)"
| "names_loop all_projects workbooks_named ((workbook_name, workbook_paths) # items) queries out
       workbook_id_to_workbook =
     (let workbooks = workbooks_named workbook_name;
          queries = queries @ [QueryWorkbooks workbook_name];
          all_paths = remdups workbook_paths
      in case workbooks_loop all_projects workbook_paths workbooks all_paths
                workbook_id_to_workbook of
           None \<Rightarrow> (None, queries, out)
         | Some (Inl e) \<Rightarrow> (Some (Inl e), queries, out)
         | Some (Inr (all_paths, workbook_id_to_workbook)) \<Rightarrow>
             names_loop all_projects workbooks_named items queries
               (out @ map (cannot_find workbook_name) all_paths) workbook_id_to_workbook)"

definition get_workbooks_from_paths ::
  "site \<Rightarrow> (string \<Rightarrow> string list option) \<Rightarrow> string
     \<Rightarrow> (py_error + (string, workbook_item) dict) option \<times> query list \<times> out_event list" where
  "get_workbooks_from_paths server files path_list =
     (let all_projects = project_dict (site_projects server) in
      case parse_workbook_path files path_list of
        (Inl e, out) \<Rightarrow> (Some (Inl e), [QueryProjects], out)
      | (Inr workbook_path_mapping, out) \<Rightarrow>
          names_loop all_projects (site_workbooks server) workbook_path_mapping
            [QueryProjects] out [])"

subsection \<open>What was asked for\<close>

text \<open>
  The words of the claim about the list. The name and the path that a line asks for; the
  lines that count (those that are not white space only); the paths asked for under a name;
  a workbook that the server returned for a name and whose project path is one of the paths
  asked for under that name; a path asked for under a name that no returned workbook has.
\<close>

definition line_name :: "string \<Rightarrow> string" where
  "line_name line = last (split CHR ''/'' (rstrip line))"

definition line_path :: "string \<Rightarrow> string" where
  "line_path line = join ''/'' (butlast (split CHR ''/'' (rstrip line)))"

definition requested_lines :: "(string \<Rightarrow> string list option) \<Rightarrow> string \<Rightarrow> string list" where
  "requested_lines files path_list =
     (case files path_list of None \<Rightarrow> [] | Some file_list \<Rightarrow> filter (\<lambda>line. \<not> isspace line) file_list)"

definition requested_paths :: "string list \<Rightarrow> string \<Rightarrow> string list" where
  "requested_paths lines workbook_name =
     map line_path (filter (\<lambda>line. line_name line = workbook_name) lines)"

definition path_matches ::
  "(string \<rightharpoonup> project_item) \<Rightarrow> string list \<Rightarrow> workbook_item \<Rightarrow> bool" where
  "path_matches all_projects workbook_paths workbook =
     (case workbook_project_path all_projects workbook of
        Some (Inr path) \<Rightarrow> path \<in> set workbook_paths
      | _ \<Rightarrow> False)"

definition has_path ::
  "(string \<rightharpoonup> project_item) \<Rightarrow> string \<Rightarrow> workbook_item \<Rightarrow> bool" where
  "has_path all_projects path workbook =
     (workbook_project_path all_projects workbook = Some (Inr path))"

text \<open>
  The two conditions under which the loop over the workbooks of one name goes through:
  the project path of every returned workbook is found, and no two of the returned
  workbooks have the same path among the paths asked for.
\<close>

definition paths_found :: "(string \<rightharpoonup> project_item) \<Rightarrow> workbook_item list \<Rightarrow> bool" where
  "paths_found all_projects workbooks =
     list_all (\<lambda>workbook. case workbook_project_path all_projects workbook of
                  Some (Inr path) \<Rightarrow> True | _ \<Rightarrow> False) workbooks"

definition matched_paths ::
  "(string \<rightharpoonup> project_item) \<Rightarrow> string list \<Rightarrow> workbook_item list \<Rightarrow> string list" where
  "matched_paths all_projects workbook_paths workbooks =
     concat (map (\<lambda>workbook. case workbook_project_path all_projects workbook of
                     Some (Inr path) \<Rightarrow> if path \<in> set workbook_paths then [path] else []
                   | _ \<Rightarrow> []) workbooks)"

definition single_matches ::
  "(string \<rightharpoonup> project_item) \<Rightarrow> (string \<Rightarrow> workbook_item list) \<Rightarrow> string list \<Rightarrow> bool" where
  "single_matches all_projects workbooks_named lines =
     list_all (\<lambda>line. paths_found all_projects (workbooks_named (line_name line)) \<and>
                 distinct (matched_paths all_projects (requested_paths lines (line_name line))
                             (workbooks_named (line_name line)))) lines"

section \<open>Properties: schedule lookup\<close>

lemma find_schedule_loop_none:
  "(find_schedule_loop schedules n = None) = (\<forall>s \<in> set schedules. sch_name s \<noteq> n)"
  by (induction schedules) auto

lemma find_schedule_loop_first:
  "i < length schedules \<Longrightarrow> sch_name (schedules ! i) = n \<Longrightarrow>
   (\<forall>j < i. sch_name (schedules ! j) \<noteq> n) \<Longrightarrow>
   find_schedule_loop schedules n = Some (schedules ! i)"
proof (induction schedules arbitrary: i)
  case Nil
  then show ?case by simp
next
  case (Cons s ss)
  show ?case
  proof (cases i)
    case 0
    with Cons.prems show ?thesis by simp
  next
    case (Suc k)
    from Cons.prems(3) Suc have hd: "sch_name s \<noteq> n" by auto
    from Cons.prems Suc have "find_schedule_loop ss n = Some (ss ! k)"
      by (intro Cons.IH) auto
    with hd Suc show ?thesis by auto
  qed
qed

text \<open>
  C9. \<open>find_schedule\<close> returns the first schedule of the listing, in listing order, whose
  name equals the queried name; it returns \<open>None\<close> when the queried name is \<open>None\<close> and
  when no schedule of the listing has that name.
\<close>

theorem find_schedule_first_match:
  "find_schedule schedules None = None \<and>
   ((\<forall>s \<in> set schedules. sch_name s \<noteq> n) \<longrightarrow> find_schedule schedules (Some n) = None) \<and>
   (\<forall>i < length schedules.
      sch_name (schedules ! i) = n \<and> (\<forall>j < i. sch_name (schedules ! j) \<noteq> n)
      \<longrightarrow> find_schedule schedules (Some n) = Some (schedules ! i))"
  using find_schedule_loop_none [of schedules n] find_schedule_loop_first [of _ schedules n]
  by (auto simp: find_schedule_def)

theorem find_schedule_first_match_witness:
  "find_schedule
     [\<lparr>sch_id = ''s1'', sch_name = ''Nightly''\<rparr>,
      \<lparr>sch_id = ''s2'', sch_name = ''Hourly''\<rparr>,
      \<lparr>sch_id = ''s3'', sch_name = ''Hourly''\<rparr>] (Some ''Hourly'')
     = Some \<lparr>sch_id = ''s2'', sch_name = ''Hourly''\<rparr> \<and>
   find_schedule
     [\<lparr>sch_id = ''s1'', sch_name = ''Nightly''\<rparr>,
      \<lparr>sch_id = ''s2'', sch_name = ''Hourly''\<rparr>,
      \<lparr>sch_id = ''s3'', sch_name = ''Hourly''\<rparr>] (Some ''Weekly'') = None"
proof -
  let ?xs = "[\<lparr>sch_id = ''s1'', sch_name = ''Nightly''\<rparr>,
      \<lparr>sch_id = ''s2'', sch_name = ''Hourly''\<rparr>,
      \<lparr>sch_id = ''s3'', sch_name = ''Hourly''\<rparr>]"
  have a: "\<forall>i < length ?xs.
      sch_name (?xs ! i) = ''Hourly'' \<and> (\<forall>j < i. sch_name (?xs ! j) \<noteq> ''Hourly'')
      \<longrightarrow> find_schedule ?xs (Some ''Hourly'') = Some (?xs ! i)"
    using find_schedule_first_match [of ?xs "''Hourly''"] by blast
  have "find_schedule ?xs (Some ''Hourly'') = Some (?xs ! 1)"
    using a [rule_format, of 1] by simp
  moreover have "find_schedule ?xs (Some ''Weekly'') = None"
    using find_schedule_first_match [of ?xs "''Weekly''"] by simp
  ultimately show ?thesis by simp
qed

section \<open>Properties: the tasks endpoint\<close>







section \<open>Properties: the project tree\<close>

lemma find_project_path_chain:
  "ancestry a p chain \<Longrightarrow> find_project_path p a path = Some (Inr (path_of_chain chain path))"
proof (induction arbitrary: path rule: ancestry.induct)
  case (root project all_projects)
  then show ?case
    by (subst find_project_path.simps) (simp add: path_of_chain_def prepend_name_def)
next
  case (child all_projects project parent chain)
  then show ?case
    by (subst find_project_path.simps)
       (auto simp: path_of_chain_def prepend_name_def parent_of_def Let_def split: option.splits)
qed

lemma find_project_path_depth_chain:
  "ancestry a p chain \<Longrightarrow>
   find_project_path_depth (length chain) p a path = Some (Inr (path_of_chain chain path))"
proof (induction arbitrary: path rule: ancestry.induct)
  case (root project all_projects)
  then show ?case
    by (simp add: path_of_chain_def prepend_name_def)
next
  case (child all_projects project parent chain)
  then show ?case
    by (auto simp: path_of_chain_def prepend_name_def parent_of_def Let_def split: option.splits)
qed

lemma ancestry_length: "ancestry a p chain \<Longrightarrow> 0 < length chain"
  by (induction rule: ancestry.induct) auto

lemma find_project_path_depth_short:
  "ancestry a p chain \<Longrightarrow> n < length chain \<Longrightarrow> find_project_path_depth n p a path = None"
proof (induction arbitrary: path n rule: ancestry.induct)
  case (root project all_projects)
  then show ?case by simp
next
  case (child all_projects project parent chain)
  show ?case
  proof (cases n)
    case 0
    then show ?thesis by simp
  next
    case (Suc k)
    with child.prems have "k < length chain" by simp
    with child.IH Suc child.hyps show ?thesis
      by (auto simp: parent_of_def Let_def split: option.splits)
  qed
qed

lemma parent_of_functional: "parent_of a p q \<Longrightarrow> parent_of a p q' \<Longrightarrow> q = q'"
  by (auto simp: parent_of_def split: option.splits)

lemma reaches_cycle_step:
  assumes "(parent_of a)\<^sup>*\<^sup>* p q" "(parent_of a)\<^sup>+\<^sup>+ q q" "parent_of a p p'"
  shows "\<exists>q'. (parent_of a)\<^sup>*\<^sup>* p' q' \<and> (parent_of a)\<^sup>+\<^sup>+ q' q'"
proof (cases "p = q")
  case True
  from assms(2) obtain z where z: "parent_of a q z" "(parent_of a)\<^sup>*\<^sup>* z q"
    by (auto dest: tranclpD)
  with True assms(3) have "z = p'" by (auto dest: parent_of_functional)
  with z assms(2) show ?thesis by blast
next
  case False
  with assms(1) obtain z where z: "parent_of a p z" "(parent_of a)\<^sup>*\<^sup>* z q"
    by (auto elim: converse_rtranclpE)
  with assms(3) have "z = p'" by (auto dest: parent_of_functional)
  with z assms(2) show ?thesis by blast
qed

lemma reaches_cycle_has_parent:
  assumes "(parent_of a)\<^sup>*\<^sup>* p q" "(parent_of a)\<^sup>+\<^sup>+ q q"
  shows "\<exists>p'. parent_of a p p'"
proof (cases "p = q")
  case True
  with assms(2) show ?thesis by (auto dest: tranclpD)
next
  case False
  with assms(1) show ?thesis by (auto elim: converse_rtranclpE)
qed

lemma find_project_path_no_cycle:
  assumes "find_project_path p a path = Some r"
  shows "\<not> (\<exists>q. (parent_of a)\<^sup>*\<^sup>* p q \<and> (parent_of a)\<^sup>+\<^sup>+ q q)"
proof (rule find_project_path.raw_induct
        [where P = "\<lambda>p a path r. \<not> (\<exists>q. (parent_of a)\<^sup>*\<^sup>* p q \<and> (parent_of a)\<^sup>+\<^sup>+ q q)", OF _ assms])
  fix f :: "project_item \<Rightarrow> (string \<rightharpoonup> project_item) \<Rightarrow> string \<Rightarrow> (py_error + string) option"
  fix project :: project_item and all_projects :: "string \<rightharpoonup> project_item"
    and path :: string and r :: "py_error + string"
  assume IH: "\<And>p a path r. f p a path = Some r \<Longrightarrow>
                \<not> (\<exists>q. (parent_of a)\<^sup>*\<^sup>* p q \<and> (parent_of a)\<^sup>+\<^sup>+ q q)"
  assume eq: "(let path = if length path = 0 then proj_name project
                    else proj_name project @ ''/'' @ path
         in case proj_parent_id project of None \<Rightarrow> Some (Inr path)
            | Some parent_id \<Rightarrow>
                (case all_projects parent_id of
                   None \<Rightarrow> Some (Inl (KeyError parent_id))
                 | Some parent \<Rightarrow> f parent all_projects path)) = Some r"
  show "\<not> (\<exists>q. (parent_of all_projects)\<^sup>*\<^sup>* project q \<and> (parent_of all_projects)\<^sup>+\<^sup>+ q q)"
  proof
    assume "\<exists>q. (parent_of all_projects)\<^sup>*\<^sup>* project q \<and> (parent_of all_projects)\<^sup>+\<^sup>+ q q"
    then obtain q where q: "(parent_of all_projects)\<^sup>*\<^sup>* project q" "(parent_of all_projects)\<^sup>+\<^sup>+ q q"
      by blast
    from reaches_cycle_has_parent [OF q] obtain p' where p': "parent_of all_projects project p'"
      by blast
    then obtain pid where pid: "proj_parent_id project = Some pid" "all_projects pid = Some p'"
      by (auto simp: parent_of_def split: option.splits)
    from eq pid obtain path' where "f p' all_projects path' = Some r"
      by (auto simp: Let_def)
    from IH [OF this] reaches_cycle_step [OF q p'] show False by blast
  qed
qed

lemma find_project_path_cycle_none:
  "(parent_of a)\<^sup>*\<^sup>* p q \<Longrightarrow> (parent_of a)\<^sup>+\<^sup>+ q q \<Longrightarrow> find_project_path p a path = None"
  using find_project_path_no_cycle [of p a path]
  by (cases "find_project_path p a path") auto

lemma split_not_Nil: "split sep s \<noteq> []"
  by (induction s) auto

lemma split_no_sep: "sep \<notin> set s \<Longrightarrow> split sep s = [s]"
  by (induction s) auto

lemma split_append: "sep \<notin> set a \<Longrightarrow> split sep (a @ sep # b) = a # split sep b"
  by (induction a) auto

lemma path_of_chain_nonempty:
  "chain \<noteq> [] \<Longrightarrow> proj_name (last chain) \<noteq> [] \<Longrightarrow> path_of_chain chain [] \<noteq> []"
  by (induction chain) (auto simp: path_of_chain_def prepend_name_def split: if_splits)

lemma split_path_of_chain:
  "chain \<noteq> [] \<Longrightarrow> proj_name (last chain) \<noteq> [] \<Longrightarrow>
   \<forall>q \<in> set chain. CHR ''/'' \<notin> set (proj_name q) \<Longrightarrow>
   split CHR ''/'' (path_of_chain chain []) = map proj_name chain"
proof (induction chain)
  case Nil
  then show ?case by simp
next
  case (Cons c cs)
  show ?case
  proof (cases "cs = []")
    case True
    with Cons.prems show ?thesis
      by (simp add: path_of_chain_def prepend_name_def split_no_sep)
  next
    case False
    with Cons.prems have ne: "path_of_chain cs [] \<noteq> []"
      by (intro path_of_chain_nonempty) auto
    from False Cons have IH: "split CHR ''/'' (path_of_chain cs []) = map proj_name cs"
      by auto
    have "path_of_chain (c # cs) [] = proj_name c @ CHR ''/'' # path_of_chain cs []"
      using ne by (simp add: path_of_chain_def prepend_name_def)
    with IH Cons.prems show ?thesis
      by (simp add: split_append)
  qed
qed

lemma project_dict_Some:
  "project_dict ps i = Some q \<Longrightarrow> q \<in> set ps \<and> proj_id q = i"
proof -
  have "\<And>d. fold (\<lambda>project d. d(proj_id project \<mapsto> project)) ps d i = Some q \<Longrightarrow>
          (q \<in> set ps \<and> proj_id q = i) \<or> d i = Some q"
    by (induction ps) (fastforce split: if_splits)+
  from this [of Map.empty] show "project_dict ps i = Some q \<Longrightarrow> q \<in> set ps \<and> proj_id q = i"
    by (simp add: project_dict_def)
qed

lemma linked_snoc:
  "linked ps cur (cs @ [c]) =
     (linked ps cur cs \<and> c \<in> set ps \<and>
      proj_parent_id c = (if cs = [] then cur else Some (proj_id (last cs))))"
  by (induction cs arbitrary: cur) auto

lemma ancestry_linked:
  "ancestry a p chain \<Longrightarrow> a = project_dict ps \<Longrightarrow> p \<in> set ps \<Longrightarrow>
   linked ps None chain \<and> chain \<noteq> [] \<and> last chain = p"
proof (induction rule: ancestry.induct)
  case (root project all_projects)
  then show ?case by simp
next
  case (child all_projects project parent chain)
  from child.hyps(1) child.prems(1) obtain pid where
    pid: "proj_parent_id project = Some pid" "project_dict ps pid = Some parent"
    by (auto simp: parent_of_def split: option.splits)
  from project_dict_Some [OF pid(2)] have par: "parent \<in> set ps" "proj_id parent = pid" by auto
  with child.IH child.prems have "linked ps None chain \<and> chain \<noteq> [] \<and> last chain = parent"
    by simp
  with pid par child.prems show ?case
    by (simp add: linked_snoc)
qed

lemma rewalk_linked:
  "unique_sibling_names ps \<Longrightarrow> linked ps cur chain \<Longrightarrow> chain \<noteq> [] \<Longrightarrow>
   rewalk_by_name ps cur (map proj_name chain) = Some (proj_id (last chain))"
proof (induction chain arbitrary: cur)
  case Nil
  then show ?case by simp
next
  case (Cons c cs)
  from Cons.prems have c: "c \<in> set ps" "proj_parent_id c = cur" by auto
  then obtain c' where f: "find (\<lambda>child. proj_parent_id child = cur \<and> proj_name child = proj_name c) ps = Some c'"
    by (cases "find (\<lambda>child. proj_parent_id child = cur \<and> proj_name child = proj_name c) ps")
       (auto simp: find_None_iff)
  then have "c' \<in> set ps" "proj_parent_id c' = cur" "proj_name c' = proj_name c"
    by (auto simp: find_Some_iff)
  with c Cons.prems(1) have id: "proj_id c' = proj_id c"
    unfolding unique_sibling_names_def by blast
  show ?case
  proof (cases "cs = []")
    case True
    with f id show ?thesis by simp
  next
    case False
    with Cons have "rewalk_by_name ps (Some (proj_id c)) (map proj_name cs) = Some (proj_id (last cs))"
      by auto
    with f id False show ?thesis by simp
  qed
qed

lemma for_each_child_total:
  "(\<And>c acc. c \<in> set cs \<Longrightarrow> \<exists>r. body c acc = Some r) \<Longrightarrow>
   \<exists>r. for_each_child body cs acc = Some r"
proof (induction cs arbitrary: acc)
  case Nil
  then show ?case by simp
next
  case (Cons c cs)
  from Cons.prems [of c acc] obtain r where r: "body c acc = Some r" by auto
  from Cons.IH [of r] Cons.prems obtain r' where "for_each_child body cs r = Some r'"
    by (meson list.set_intros(2))
  with r show ?case by simp
qed

lemma find_projects_to_update_total:
  "forest_rank rank all_projects \<Longrightarrow> rank (proj_id project) < depth \<Longrightarrow>
   \<exists>r. find_projects_to_update depth project all_projects acc = Some r"
proof (induction depth arbitrary: project acc)
  case 0
  then show ?case by simp
next
  case (Suc depth)
  let ?cs = "filter (\<lambda>child. proj_parent_id child = Some (proj_id project)) all_projects"
  have "\<And>c acc. c \<in> set ?cs \<Longrightarrow> \<exists>r. find_projects_to_update depth c all_projects acc = Some r"
  proof -
    fix c acc
    assume "c \<in> set ?cs"
    then have "c \<in> set all_projects" "proj_parent_id c = Some (proj_id project)" by auto
    with Suc.prems(1) have "rank (proj_id c) < rank (proj_id project)"
      unfolding forest_rank_def by blast
    with Suc.prems(2) have "rank (proj_id c) < depth" by simp
    from Suc.IH [OF Suc.prems(1) this] show "\<exists>r. find_projects_to_update depth c all_projects acc = Some r" .
  qed
  from for_each_child_total [of ?cs "\<lambda>child acc. find_projects_to_update depth child all_projects acc", OF this]
  show ?case by (auto simp: Let_def)
qed

lemma for_each_child_closed:
  assumes body: "\<And>c acc r. c \<in> set cs \<Longrightarrow> body c acc = Some r \<Longrightarrow>
            \<exists>new. r = acc @ c # new \<and> (\<forall>x \<in> set new. has_parent_in (c # new) x)"
  shows "for_each_child body cs acc = Some r \<Longrightarrow>
         \<exists>new. r = acc @ new \<and> (\<forall>x \<in> set new. x \<in> set cs \<or> has_parent_in new x)"
  using body
proof (induction cs arbitrary: acc)
  case Nil
  then show ?case by simp
next
  case (Cons c cs)
  from Cons.prems(1) obtain r1 where r1: "body c acc = Some r1" "for_each_child body cs r1 = Some r"
    by (auto split: option.splits)
  from Cons.prems(2) [OF _ r1(1)] obtain n1 where
    n1: "r1 = acc @ c # n1" "\<forall>x \<in> set n1. has_parent_in (c # n1) x" by auto
  have "\<exists>new. r = r1 @ new \<and> (\<forall>x \<in> set new. x \<in> set cs \<or> has_parent_in new x)"
    by (rule Cons.IH [OF r1(2)]) (use Cons.prems(2) in auto)
  then obtain n2 where n2: "r = r1 @ n2" "\<forall>x \<in> set n2. x \<in> set cs \<or> has_parent_in n2 x" by auto
  have "r = acc @ (c # n1 @ n2)" using n1 n2 by simp
  moreover have "\<forall>x \<in> set (c # n1 @ n2). x \<in> set (c # cs) \<or> has_parent_in (c # n1 @ n2) x"
    using n1(2) n2(2) by (auto simp: has_parent_in_def)
  ultimately show ?case by blast
qed

lemma find_projects_to_update_closed:
  "find_projects_to_update depth project all_projects acc = Some r \<Longrightarrow>
   \<exists>new. r = acc @ project # new \<and> (\<forall>x \<in> set new. has_parent_in (project # new) x)"
proof (induction depth arbitrary: project acc r)
  case 0
  then show ?case by simp
next
  case (Suc depth)
  let ?cs = "filter (\<lambda>child. proj_parent_id child = Some (proj_id project)) all_projects"
  show ?case
  proof (cases "?cs = []")
    case True
    with Suc.prems have "r = acc @ project # []" by (auto simp: Let_def)
    then show ?thesis by (intro exI [of _ "[]"]) simp
  next
    case False
    with Suc.prems have loop:
      "for_each_child (\<lambda>child acc. find_projects_to_update depth child all_projects acc)
         ?cs (acc @ [project]) = Some r"
      by (simp add: Let_def)
    have "\<exists>new. r = (acc @ [project]) @ new \<and> (\<forall>x \<in> set new. x \<in> set ?cs \<or> has_parent_in new x)"
      by (rule for_each_child_closed [OF _ loop]) (use Suc.IH in blast)
    then obtain new where new: "r = (acc @ [project]) @ new"
      "\<forall>x \<in> set new. x \<in> set ?cs \<or> has_parent_in new x" by blast
    have "\<forall>x \<in> set new. has_parent_in (project # new) x"
      using new(2) by (auto simp: has_parent_in_def)
    with new(1) show ?thesis by simp
  qed
qed

lemma find_project_path_depth_sound:
  "find_project_path_depth n p a path = Some r \<Longrightarrow> find_project_path p a path = Some r"
proof (induction n arbitrary: p path)
  case 0
  then show ?case by simp
next
  case (Suc n)
  then show ?case
    by (subst find_project_path.simps) (auto simp: Let_def split: option.splits)
qed

lemma find_project_path_depth_cycle_none:
  "(parent_of a)\<^sup>*\<^sup>* p q \<Longrightarrow> (parent_of a)\<^sup>+\<^sup>+ q q \<Longrightarrow> find_project_path_depth n p a path = None"
  using find_project_path_depth_sound [of n p a path] find_project_path_cycle_none [of a p q path]
  by (cases "find_project_path_depth n p a path") auto

lemma self_parent_cycle:
  "proj_parent_id p = Some i \<Longrightarrow> a i = Some p \<Longrightarrow> (parent_of a)\<^sup>*\<^sup>* p p \<and> (parent_of a)\<^sup>+\<^sup>+ p p"
  by (auto simp: parent_of_def)

text \<open>
  C5 (as amended). \<open>find_project_path\<close> has no cycle detection. When a cycle of parent
  ids can be reached from the queried project, the call never returns: it yields neither
  a path nor an error, however many nested calls are allowed. When the parent ids lead
  from the project to a root inside the dictionary, it returns the path of the chain
  after exactly one call per project of the chain, and not earlier.
\<close>

theorem find_project_path_cycle_or_chain:
  "((\<exists>q. (parent_of a)\<^sup>*\<^sup>* p q \<and> (parent_of a)\<^sup>+\<^sup>+ q q) \<longrightarrow>
      find_project_path p a path = None \<and> (\<forall>n. find_project_path_depth n p a path = None)) \<and>
   (\<forall>chain. ancestry a p chain \<longrightarrow>
      find_project_path p a path = Some (Inr (path_of_chain chain path)) \<and>
      find_project_path_depth (length chain) p a path = Some (Inr (path_of_chain chain path)) \<and>
      (\<forall>n < length chain. find_project_path_depth n p a path = None))"
  using find_project_path_cycle_none [of a p _ path]
    find_project_path_depth_cycle_none [of a p _ _ path]
    find_project_path_chain [of a p _ path]
    find_project_path_depth_chain [of a p _ path]
    find_project_path_depth_short [of a p _ _ path]
  by blast

theorem find_project_path_cycle_or_chain_witness:
  "find_project_path \<lparr>proj_id = ''p'', proj_name = ''P'', proj_parent_id = Some ''p''\<rparr>
     (project_dict [\<lparr>proj_id = ''p'', proj_name = ''P'', proj_parent_id = Some ''p''\<rparr>]) '''' = None \<and>
   find_project_path \<lparr>proj_id = ''s'', proj_name = ''Sales'', proj_parent_id = Some ''r''\<rparr>
     (project_dict [\<lparr>proj_id = ''r'', proj_name = ''Default'', proj_parent_id = None\<rparr>,
                    \<lparr>proj_id = ''s'', proj_name = ''Sales'', proj_parent_id = Some ''r''\<rparr>]) ''''
     = Some (Inr ''Default/Sales'') \<and>
   find_project_path_depth 1 \<lparr>proj_id = ''s'', proj_name = ''Sales'', proj_parent_id = Some ''r''\<rparr>
     (project_dict [\<lparr>proj_id = ''r'', proj_name = ''Default'', proj_parent_id = None\<rparr>,
                    \<lparr>proj_id = ''s'', proj_name = ''Sales'', proj_parent_id = Some ''r''\<rparr>]) ''''
     = None"
proof -
  let ?L = "\<lparr>proj_id = ''p'', proj_name = ''P'', proj_parent_id = Some ''p''\<rparr>"
  let ?R = "\<lparr>proj_id = ''r'', proj_name = ''Default'', proj_parent_id = None\<rparr>"
  let ?S = "\<lparr>proj_id = ''s'', proj_name = ''Sales'', proj_parent_id = Some ''r''\<rparr>"
  have "(parent_of (project_dict [?L]))\<^sup>*\<^sup>* ?L ?L \<and> (parent_of (project_dict [?L]))\<^sup>+\<^sup>+ ?L ?L"
    by (rule self_parent_cycle [of _ "''p''"]) (simp_all add: project_dict_def)
  then have cyc: "\<exists>q. (parent_of (project_dict [?L]))\<^sup>*\<^sup>* ?L q \<and> (parent_of (project_dict [?L]))\<^sup>+\<^sup>+ q q"
    by blast
  have "ancestry (project_dict [?R, ?S]) ?R [?R]"
    by (rule ancestry.root) simp
  then have "ancestry (project_dict [?R, ?S]) ?S ([?R] @ [?S])"
    by (rule ancestry.child [rotated]) (simp add: parent_of_def project_dict_def)
  then have chain: "ancestry (project_dict [?R, ?S]) ?S [?R, ?S]"
    by simp
  have a: "find_project_path ?L (project_dict [?L]) '''' = None"
    using find_project_path_cycle_or_chain [of "project_dict [?L]" ?L "''''"] cyc by blast
  have b: "find_project_path ?S (project_dict [?R, ?S]) ''''
             = Some (Inr (path_of_chain [?R, ?S] ''''))"
    and c: "\<forall>n < length [?R, ?S]. find_project_path_depth n ?S (project_dict [?R, ?S]) '''' = None"
    using find_project_path_cycle_or_chain [of "project_dict [?R, ?S]" ?S "''''"] chain by blast+
  have d: "path_of_chain [?R, ?S] '''' = ''Default/Sales''"
    by (simp add: path_of_chain_def prepend_name_def)
  have e: "find_project_path_depth 1 ?S (project_dict [?R, ?S]) '''' = None"
    by (rule c [rule_format]) simp
  from a b d e show ?thesis by simp
qed

theorem find_project_path_cycle_counterexample:
  "find_project_path \<lparr>proj_id = ''p'', proj_name = ''P'', proj_parent_id = Some ''p''\<rparr>
     (project_dict [\<lparr>proj_id = ''p'', proj_name = ''P'', proj_parent_id = Some ''p''\<rparr>]) '''' = None \<and>
   (\<forall>n. find_project_path_depth n \<lparr>proj_id = ''p'', proj_name = ''P'', proj_parent_id = Some ''p''\<rparr>
     (project_dict [\<lparr>proj_id = ''p'', proj_name = ''P'', proj_parent_id = Some ''p''\<rparr>]) '''' = None)"
proof -
  let ?L = "\<lparr>proj_id = ''p'', proj_name = ''P'', proj_parent_id = Some ''p''\<rparr>"
  have cyc: "(parent_of (project_dict [?L]))\<^sup>*\<^sup>* ?L ?L \<and> (parent_of (project_dict [?L]))\<^sup>+\<^sup>+ ?L ?L"
    by (rule self_parent_cycle [of _ "''p''"]) (simp_all add: project_dict_def)
  then show ?thesis
    using find_project_path_cycle_none [of "project_dict [?L]" ?L ?L "''''"]
      find_project_path_depth_cycle_none [of "project_dict [?L]" ?L ?L _ "''''"]
    by blast
qed

text \<open>
  C6. On a forest of projects, and with enough nested calls allowed, the collection of
  the descendants returns; the list it returns contains the root it was asked for, and
  every other project of the list has its parent in the list. \<open>find_project_ids_to_update\<close>
  returns the ids of that list.
\<close>

theorem find_projects_to_update_closure:
  assumes "forest_rank rank all_projects" and "rank (proj_id project) < depth"
  shows "\<exists>r. find_projects_to_update depth project all_projects [] = Some r \<and>
           project \<in> set r \<and>
           (\<forall>x \<in> set r. x = project \<or> has_parent_in r x) \<and>
           find_project_ids_to_update depth all_projects project = Some (proj_id ` set r)"
proof -
  from find_projects_to_update_total [OF assms] obtain r where
    r: "find_projects_to_update depth project all_projects [] = Some r" by blast
  from find_projects_to_update_closed [OF r] obtain new where
    new: "r = project # new" "\<forall>x \<in> set new. has_parent_in (project # new) x" by auto
  from new have "project \<in> set r" "\<forall>x \<in> set r. x = project \<or> has_parent_in r x" by auto
  moreover from r have "find_project_ids_to_update depth all_projects project = Some (proj_id ` set r)"
    by (simp add: find_project_ids_to_update_def)
  ultimately show ?thesis using r by blast
qed

theorem find_projects_to_update_closure_witness:
  "forest_rank (\<lambda>i. if i = ''r'' then 1 else 0)
     [\<lparr>proj_id = ''r'', proj_name = ''Default'', proj_parent_id = None\<rparr>,
      \<lparr>proj_id = ''s'', proj_name = ''Sales'', proj_parent_id = Some ''r''\<rparr>,
      \<lparr>proj_id = ''t'', proj_name = ''Other'', proj_parent_id = None\<rparr>] \<and>
   (\<exists>r. find_projects_to_update 2 \<lparr>proj_id = ''r'', proj_name = ''Default'', proj_parent_id = None\<rparr>
     [\<lparr>proj_id = ''r'', proj_name = ''Default'', proj_parent_id = None\<rparr>,
      \<lparr>proj_id = ''s'', proj_name = ''Sales'', proj_parent_id = Some ''r''\<rparr>,
      \<lparr>proj_id = ''t'', proj_name = ''Other'', proj_parent_id = None\<rparr>] [] = Some r \<and>
     \<lparr>proj_id = ''r'', proj_name = ''Default'', proj_parent_id = None\<rparr> \<in> set r \<and>
     find_project_ids_to_update 2
       [\<lparr>proj_id = ''r'', proj_name = ''Default'', proj_parent_id = None\<rparr>,
        \<lparr>proj_id = ''s'', proj_name = ''Sales'', proj_parent_id = Some ''r''\<rparr>,
        \<lparr>proj_id = ''t'', proj_name = ''Other'', proj_parent_id = None\<rparr>]
       \<lparr>proj_id = ''r'', proj_name = ''Default'', proj_parent_id = None\<rparr> = Some (proj_id ` set r)) \<and>
   find_projects_to_update 2 \<lparr>proj_id = ''r'', proj_name = ''Default'', proj_parent_id = None\<rparr>
     [\<lparr>proj_id = ''r'', proj_name = ''Default'', proj_parent_id = None\<rparr>,
      \<lparr>proj_id = ''s'', proj_name = ''Sales'', proj_parent_id = Some ''r''\<rparr>,
      \<lparr>proj_id = ''t'', proj_name = ''Other'', proj_parent_id = None\<rparr>] []
     = Some [\<lparr>proj_id = ''r'', proj_name = ''Default'', proj_parent_id = None\<rparr>,
             \<lparr>proj_id = ''s'', proj_name = ''Sales'', proj_parent_id = Some ''r''\<rparr>]"
proof -
  let ?R = "\<lparr>proj_id = ''r'', proj_name = ''Default'', proj_parent_id = None\<rparr>"
  let ?S = "\<lparr>proj_id = ''s'', proj_name = ''Sales'', proj_parent_id = Some ''r''\<rparr>"
  let ?T = "\<lparr>proj_id = ''t'', proj_name = ''Other'', proj_parent_id = None\<rparr>"
  let ?rank = "\<lambda>i. if i = ''r'' then 1 else (0::nat)"
  have h1: "forest_rank ?rank [?R, ?S, ?T]"
    by (simp add: forest_rank_def)
  have h2: "?rank (proj_id ?R) < 2"
    by simp
  have ex: "\<exists>r. find_projects_to_update 2 ?R [?R, ?S, ?T] [] = Some r \<and> ?R \<in> set r \<and>
           (\<forall>x \<in> set r. x = ?R \<or> has_parent_in r x) \<and>
           find_project_ids_to_update 2 [?R, ?S, ?T] ?R = Some (proj_id ` set r)"
    by (rule find_projects_to_update_closure [OF h1 h2])
  have run: "find_projects_to_update 2 ?R [?R, ?S, ?T] [] = Some [?R, ?S]"
    by (simp add: numeral_2_eq_2)
  from h1 ex run show ?thesis by blast
qed

text \<open>
  C7 (as amended). Let a project of the listing have a chain of ancestors that ends at a
  root, let no name on the chain contain \<open>/\<close>, and let the project's own name be not
  empty. Then \<open>find_project_path\<close> returns a path whose pieces between the \<open>/\<close> are
  exactly the names of the chain, root first and the project's own name last. When in
  addition no two projects with the same parent have the same name, walking these names
  down from the roots arrives at the id of the project.
\<close>

theorem find_project_path_round_trip:
  assumes "ancestry (project_dict projects) project chain"
    and "project \<in> set projects"
    and "\<forall>q \<in> set chain. CHR ''/'' \<notin> set (proj_name q)"
    and "proj_name project \<noteq> []"
  shows "\<exists>path. find_project_path project (project_dict projects) [] = Some (Inr path) \<and>
           split CHR ''/'' path = map proj_name chain \<and>
           (unique_sibling_names projects \<longrightarrow>
              rewalk_by_name projects None (split CHR ''/'' path) = Some (proj_id project))"
proof -
  from ancestry_linked [OF assms(1) refl assms(2)] have
    l: "linked projects None chain" "chain \<noteq> []" "last chain = project" by auto
  have p: "find_project_path project (project_dict projects) [] = Some (Inr (path_of_chain chain []))"
    by (rule find_project_path_chain [OF assms(1)])
  have s: "split CHR ''/'' (path_of_chain chain []) = map proj_name chain"
    using l assms(3,4) by (intro split_path_of_chain) auto
  have "unique_sibling_names projects \<longrightarrow>
          rewalk_by_name projects None (map proj_name chain) = Some (proj_id project)"
    using rewalk_linked [of projects None chain] l by auto
  with p s show ?thesis by simp
qed

theorem find_project_path_round_trip_witness:
  "\<exists>path. find_project_path \<lparr>proj_id = ''s'', proj_name = ''Sales'', proj_parent_id = Some ''r''\<rparr>
     (project_dict [\<lparr>proj_id = ''r'', proj_name = ''Default'', proj_parent_id = None\<rparr>,
                    \<lparr>proj_id = ''s'', proj_name = ''Sales'', proj_parent_id = Some ''r''\<rparr>]) []
       = Some (Inr path) \<and>
     split CHR ''/'' path = [''Default'', ''Sales''] \<and>
     rewalk_by_name [\<lparr>proj_id = ''r'', proj_name = ''Default'', proj_parent_id = None\<rparr>,
                     \<lparr>proj_id = ''s'', proj_name = ''Sales'', proj_parent_id = Some ''r''\<rparr>]
       None (split CHR ''/'' path) = Some ''s''"
proof -
  let ?R = "\<lparr>proj_id = ''r'', proj_name = ''Default'', proj_parent_id = None\<rparr>"
  let ?S = "\<lparr>proj_id = ''s'', proj_name = ''Sales'', proj_parent_id = Some ''r''\<rparr>"
  have "ancestry (project_dict [?R, ?S]) ?R [?R]"
    by (rule ancestry.root) simp
  then have "ancestry (project_dict [?R, ?S]) ?S ([?R] @ [?S])"
    by (rule ancestry.child [rotated]) (simp add: parent_of_def project_dict_def)
  then have h1: "ancestry (project_dict [?R, ?S]) ?S [?R, ?S]"
    by simp
  have h2: "?S \<in> set [?R, ?S]" by simp
  have h3: "\<forall>q \<in> set [?R, ?S]. CHR ''/'' \<notin> set (proj_name q)" by simp
  have h4: "proj_name ?S \<noteq> []" by simp
  have h5: "unique_sibling_names [?R, ?S]" by (simp add: unique_sibling_names_def)
  from find_project_path_round_trip [OF h1 h2 h3 h4] h5 show ?thesis by simp
qed

theorem find_project_path_round_trip_counterexample:
  "find_project_path \<lparr>proj_id = ''r'', proj_name = ''a/b'', proj_parent_id = None\<rparr>
     (project_dict [\<lparr>proj_id = ''r'', proj_name = ''a/b'', proj_parent_id = None\<rparr>]) []
     = Some (Inr ''a/b'') \<and>
   ancestry (project_dict [\<lparr>proj_id = ''r'', proj_name = ''a/b'', proj_parent_id = None\<rparr>])
     \<lparr>proj_id = ''r'', proj_name = ''a/b'', proj_parent_id = None\<rparr>
     [\<lparr>proj_id = ''r'', proj_name = ''a/b'', proj_parent_id = None\<rparr>] \<and>
   split CHR ''/'' ''a/b'' = [''a'', ''b''] \<and>
   split CHR ''/'' ''a/b'' \<noteq> map proj_name [\<lparr>proj_id = ''r'', proj_name = ''a/b'', proj_parent_id = None\<rparr>] \<and>
   rewalk_by_name [\<lparr>proj_id = ''r'', proj_name = ''a/b'', proj_parent_id = None\<rparr>] None
     (split CHR ''/'' ''a/b'') = None \<and>
   find_project_path \<lparr>proj_id = ''e'', proj_name = '''', proj_parent_id = Some ''r''\<rparr>
     (project_dict [\<lparr>proj_id = ''r'', proj_name = ''Default'', proj_parent_id = None\<rparr>,
                    \<lparr>proj_id = ''e'', proj_name = '''', proj_parent_id = Some ''r''\<rparr>]) []
     = Some (Inr ''Default'') \<and>
   split CHR ''/'' ''Default'' \<noteq> [''Default'', ''''] \<and>
   find_project_path \<lparr>proj_id = ''s2'', proj_name = ''Sales'', proj_parent_id = Some ''r''\<rparr>
     (project_dict [\<lparr>proj_id = ''r'', proj_name = ''Default'', proj_parent_id = None\<rparr>,
                    \<lparr>proj_id = ''s1'', proj_name = ''Sales'', proj_parent_id = Some ''r''\<rparr>,
                    \<lparr>proj_id = ''s2'', proj_name = ''Sales'', proj_parent_id = Some ''r''\<rparr>]) []
     = Some (Inr ''Default/Sales'') \<and>
   rewalk_by_name [\<lparr>proj_id = ''r'', proj_name = ''Default'', proj_parent_id = None\<rparr>,
                   \<lparr>proj_id = ''s1'', proj_name = ''Sales'', proj_parent_id = Some ''r''\<rparr>,
                   \<lparr>proj_id = ''s2'', proj_name = ''Sales'', proj_parent_id = Some ''r''\<rparr>] None
     (split CHR ''/'' ''Default/Sales'') = Some ''s1''"
proof -
  let ?R = "\<lparr>proj_id = ''r'', proj_name = ''a/b'', proj_parent_id = None\<rparr>"
  have a: "ancestry (project_dict [?R]) ?R [?R]"
    by (rule ancestry.root) simp
  have "find_project_path ?R (project_dict [?R]) [] = Some (Inr (path_of_chain [?R] []))"
    by (rule find_project_path_chain [OF a])
  then have b: "find_project_path ?R (project_dict [?R]) [] = Some (Inr ''a/b'')"
    by (simp add: path_of_chain_def prepend_name_def)
  have c: "split CHR ''/'' ''a/b'' = [''a'', ''b'']"
    by simp
  have d: "find_project_path \<lparr>proj_id = ''e'', proj_name = '''', proj_parent_id = Some ''r''\<rparr>
     (project_dict [\<lparr>proj_id = ''r'', proj_name = ''Default'', proj_parent_id = None\<rparr>,
                    \<lparr>proj_id = ''e'', proj_name = '''', proj_parent_id = Some ''r''\<rparr>]) []
     = Some (Inr ''Default'')"
    by (simp add: find_project_path.simps project_dict_def)
  have e: "find_project_path \<lparr>proj_id = ''s2'', proj_name = ''Sales'', proj_parent_id = Some ''r''\<rparr>
     (project_dict [\<lparr>proj_id = ''r'', proj_name = ''Default'', proj_parent_id = None\<rparr>,
                    \<lparr>proj_id = ''s1'', proj_name = ''Sales'', proj_parent_id = Some ''r''\<rparr>,
                    \<lparr>proj_id = ''s2'', proj_name = ''Sales'', proj_parent_id = Some ''r''\<rparr>]) []
     = Some (Inr ''Default/Sales'')"
    by (simp add: find_project_path.simps project_dict_def)
  from a b c d e show ?thesis by simp
qed

section \<open>Properties: removing workbooks from their schedule\<close>

lemma remove_loop_replay:
  assumes "only_server_response_errors api"
  shows "\<forall>task \<in> set tasks. tsk_target task \<noteq> None \<Longrightarrow>
    remove_loop api wbs tasks st =
      (case replay_deletes api (r_server st) (filter (requested wbs) tasks) of
         (answers, srv) \<Rightarrow>
           (None,
            st\<lparr>r_server := srv,
               r_calls := r_calls st
                 @ map (\<lambda>task. TasksDelete (tsk_id task) ''materializeViews'')
                     (filter (requested wbs) tasks),
               r_count := r_count st + length (removed answers),
               r_table := r_table st @ map (removed_row wbs) (removed answers),
               r_out := r_out st @ reported answers\<rparr>))"
proof (induction tasks arbitrary: st)
  case Nil
  then show ?case by (simp add: removed_def reported_def)
next
  case (Cons task tasks)
  from Cons.prems obtain target where target: "tsk_target task = Some target" by auto
  from Cons.prems have rest: "\<forall>task \<in> set tasks. tsk_target task \<noteq> None" by simp
  note IH = Cons.IH [OF rest]
  show ?case
  proof (cases "map_of wbs (tgt_id target)")
    case None
    with target IH show ?thesis by (simp add: requested_def)
  next
    case (Some workbook)
    obtain answer srv where d: "tasks_delete api (r_server st) (tsk_id task) ''materializeViews'' = (answer, srv)"
      by (cases "tasks_delete api (r_server st) (tsk_id task) ''materializeViews''")
    show ?thesis
    proof (cases answer)
      case (Inr u)
      with target Some d IH show ?thesis
        by (simp add: requested_def removed_def reported_def removed_row_def split: prod.splits)
    next
      case (Inl e)
      with assms d obtain summary detail where e: "e = ServerResponseError summary detail"
        unfolding only_server_response_errors_def by (metis fst_conv)
      with Inl target Some d IH show ?thesis
        by (simp add: requested_def removed_def reported_def except_server_response_error_def
              split: prod.splits)
    qed
  qed
qed

lemma replay_deletes_empty: "replay_deletes api srv [] = ([], srv)"
  by simp

lemma requested_no_workbooks: "filter (requested []) tasks = []"
  by (induction tasks) (auto simp: requested_def split: option.splits)

text \<open>
  C8 (as amended). Let every task of the listing have a target, and let the server answer
  a delete with nothing but success or a \<open>ServerResponseError\<close>. Then
  \<open>remove_materialized_views_tasks\<close> returns normally; the delete calls it makes are, in
  the order of the listing, exactly those for the tasks whose target id is a key of the
  requested workbooks; a \<open>ServerResponseError\<close> is printed and the loop goes on with the
  next task; the counter is the number of deletes that succeeded, the table has one row
  for each of them and is printed when there is at least one.
\<close>

theorem remove_tasks_deletes_requested:
  assumes "only_server_response_errors api"
    and "\<forall>task \<in> set tasks. tsk_target task \<noteq> None"
  shows "case replay_deletes api (r_server st) (filter (requested wbs) tasks) of
     (answers, srv) \<Rightarrow>
       (\<exists>ret st'.
          remove_materialized_views_tasks api (Some tasks) (Some wbs) st = (Inr ret, st') \<and>
          r_server st' = srv \<and>
          r_calls st' = r_calls st
            @ map (\<lambda>task. TasksDelete (tsk_id task) ''materializeViews'')
                (filter (requested wbs) tasks) \<and>
          (wbs \<noteq> [] \<and> tasks \<noteq> [] \<longrightarrow>
             r_count st' = length (removed answers) \<and>
             r_table st' = map (removed_row wbs) (removed answers) \<and>
             r_out st' = r_out st @ reported answers
               @ [if 0 < length (removed answers)
                  then PrintTable [''Workbook'', ''Removed From Schedule'']
                         (map (removed_row wbs) (removed answers))
                  else Print ''Unable to find any workbooks to remove MaterializeViews for'']))"
proof (cases "wbs = [] \<or> tasks = []")
  case True
  then show ?thesis
    by (auto simp: remove_materialized_views_tasks_def requested_no_workbooks)
next
  case False
  obtain answers srv where
    r: "replay_deletes api (r_server st) (filter (requested wbs) tasks) = (answers, srv)"
    by (cases "replay_deletes api (r_server st) (filter (requested wbs) tasks)")
  from remove_loop_replay [OF assms, of wbs "st\<lparr>r_count := 0, r_table := []\<rparr>"] r
  have "remove_loop api wbs tasks (st\<lparr>r_count := 0, r_table := []\<rparr>) =
      (None,
       st\<lparr>r_server := srv,
          r_calls := r_calls st
            @ map (\<lambda>task. TasksDelete (tsk_id task) ''materializeViews'')
                (filter (requested wbs) tasks),
          r_count := length (removed answers),
          r_table := map (removed_row wbs) (removed answers),
          r_out := r_out st @ reported answers\<rparr>)"
    by simp
  with False r show ?thesis
    by (simp add: remove_materialized_views_tasks_def)
qed

theorem remove_tasks_deletes_requested_witness:
  "only_server_response_errors
     \<lparr>tasks_delete = (\<lambda>srv i ty. if i = ''t2''
        then (Inl (ServerResponseError ''404'' ''task not found''), Suc srv) else (Inr (), Suc srv)),
      schedules_add_to_schedule = (\<lambda>srv sid w ty. (Inr (), Suc srv))\<rparr> \<and>
   (\<exists>ret st'.
      remove_materialized_views_tasks
        \<lparr>tasks_delete = (\<lambda>srv i ty. if i = ''t2''
        then (Inl (ServerResponseError ''404'' ''task not found''), Suc srv) else (Inr (), Suc srv)),
      schedules_add_to_schedule = (\<lambda>srv sid w ty. (Inr (), Suc srv))\<rparr>
        (Some [\<lparr>tsk_id = ''t1'', tsk_target = Some \<lparr>tgt_id = ''w1'', tgt_type = ''workbook''\<rparr>, tsk_schedule_item = \<lparr>sch_id = ''s1'', sch_name = ''Nightly''\<rparr>\<rparr>,
      \<lparr>tsk_id = ''t2'', tsk_target = Some \<lparr>tgt_id = ''w2'', tgt_type = ''workbook''\<rparr>, tsk_schedule_item = \<lparr>sch_id = ''s1'', sch_name = ''Nightly''\<rparr>\<rparr>,
      \<lparr>tsk_id = ''t3'', tsk_target = Some \<lparr>tgt_id = ''w9'', tgt_type = ''workbook''\<rparr>, tsk_schedule_item = \<lparr>sch_id = ''s1'', sch_name = ''Nightly''\<rparr>\<rparr>,
      \<lparr>tsk_id = ''t4'', tsk_target = Some \<lparr>tgt_id = ''w3'', tgt_type = ''workbook''\<rparr>, tsk_schedule_item = \<lparr>sch_id = ''s1'', sch_name = ''Nightly''\<rparr>\<rparr>])
        (Some [(''w1'', \<lparr>wb_id = ''w1'', wb_name = ''Report1'', wb_project_id = ''p'', wb_project_name = ''Default''\<rparr>),
      (''w2'', \<lparr>wb_id = ''w2'', wb_name = ''Report2'', wb_project_id = ''p'', wb_project_name = ''Default''\<rparr>),
      (''w3'', \<lparr>wb_id = ''w3'', wb_name = ''Report3'', wb_project_id = ''p'', wb_project_name = ''Default''\<rparr>)])
        \<lparr>r_server = 0, r_calls = [], r_stdin = [], r_out = [], r_count = 0, r_table = []\<rparr> = (Inr ret, st') \<and>
      r_calls st' = [TasksDelete ''t1'' ''materializeViews'', TasksDelete ''t2'' ''materializeViews'',
                     TasksDelete ''t4'' ''materializeViews''] \<and>
      r_count st' = 2 \<and>
      r_out st' = [Print ''404: task not found'',
                   PrintTable [''Workbook'', ''Removed From Schedule'']
                     [[''Default/Report1'', ''Nightly''], [''Default/Report3'', ''Nightly'']]])"
proof -
  let ?api = "\<lparr>tasks_delete = (\<lambda>srv i ty. if i = ''t2''
        then (Inl (ServerResponseError ''404'' ''task not found''), Suc srv) else (Inr (), Suc srv)),
      schedules_add_to_schedule = (\<lambda>srv sid w ty. (Inr (), Suc srv))\<rparr> :: nat server_api"
  let ?tasks = "[\<lparr>tsk_id = ''t1'', tsk_target = Some \<lparr>tgt_id = ''w1'', tgt_type = ''workbook''\<rparr>, tsk_schedule_item = \<lparr>sch_id = ''s1'', sch_name = ''Nightly''\<rparr>\<rparr>,
      \<lparr>tsk_id = ''t2'', tsk_target = Some \<lparr>tgt_id = ''w2'', tgt_type = ''workbook''\<rparr>, tsk_schedule_item = \<lparr>sch_id = ''s1'', sch_name = ''Nightly''\<rparr>\<rparr>,
      \<lparr>tsk_id = ''t3'', tsk_target = Some \<lparr>tgt_id = ''w9'', tgt_type = ''workbook''\<rparr>, tsk_schedule_item = \<lparr>sch_id = ''s1'', sch_name = ''Nightly''\<rparr>\<rparr>,
      \<lparr>tsk_id = ''t4'', tsk_target = Some \<lparr>tgt_id = ''w3'', tgt_type = ''workbook''\<rparr>, tsk_schedule_item = \<lparr>sch_id = ''s1'', sch_name = ''Nightly''\<rparr>\<rparr>]"
  let ?wbs = "[(''w1'', \<lparr>wb_id = ''w1'', wb_name = ''Report1'', wb_project_id = ''p'', wb_project_name = ''Default''\<rparr>),
      (''w2'', \<lparr>wb_id = ''w2'', wb_name = ''Report2'', wb_project_id = ''p'', wb_project_name = ''Default''\<rparr>),
      (''w3'', \<lparr>wb_id = ''w3'', wb_name = ''Report3'', wb_project_id = ''p'', wb_project_name = ''Default''\<rparr>)]"
  let ?st = "\<lparr>r_server = 0, r_calls = [], r_stdin = [], r_out = [], r_count = 0, r_table = []\<rparr> :: nat run"
  have h1: "only_server_response_errors ?api"
    by (simp add: only_server_response_errors_def)
  have h2: "\<forall>task \<in> set ?tasks. tsk_target task \<noteq> None"
    by simp
  have f: "filter (requested ?wbs) ?tasks = [?tasks ! 0, ?tasks ! 1, ?tasks ! 3]"
    by (simp add: requested_def)
  have r: "replay_deletes ?api (r_server ?st) (filter (requested ?wbs) ?tasks) =
      ([(?tasks ! 0, Inr ()), (?tasks ! 1, Inl (ServerResponseError ''404'' ''task not found'')),
        (?tasks ! 3, Inr ())], 3)"
    unfolding f by (simp add: numeral_3_eq_3)
  from remove_tasks_deletes_requested [OF h1 h2, where st = ?st and wbs = ?wbs] h1 show ?thesis
    unfolding r f
    by (auto simp: removed_def reported_def removed_row_def label_def)
qed

theorem remove_tasks_no_target_counterexample:
  "fst (remove_materialized_views_tasks
     \<lparr>tasks_delete = (\<lambda>srv i ty. if i = ''t2''
        then (Inl (ServerResponseError ''404'' ''task not found''), Suc srv) else (Inr (), Suc srv)),
      schedules_add_to_schedule = (\<lambda>srv sid w ty. (Inr (), Suc srv))\<rparr>
     (Some [\<lparr>tsk_id = ''t0'', tsk_target = None, tsk_schedule_item = \<lparr>sch_id = ''s1'', sch_name = ''Nightly''\<rparr>\<rparr>,
            \<lparr>tsk_id = ''t1'', tsk_target = Some \<lparr>tgt_id = ''w1'', tgt_type = ''workbook''\<rparr>, tsk_schedule_item = \<lparr>sch_id = ''s1'', sch_name = ''Nightly''\<rparr>\<rparr>])
     (Some [(''w1'', \<lparr>wb_id = ''w1'', wb_name = ''Report1'', wb_project_id = ''p'', wb_project_name = ''Default''\<rparr>)])
     \<lparr>r_server = 0, r_calls = [], r_stdin = [], r_out = [], r_count = 0, r_table = []\<rparr>) = Inl AttributeError \<and>
   r_calls (snd (remove_materialized_views_tasks
     \<lparr>tasks_delete = (\<lambda>srv i ty. if i = ''t2''
        then (Inl (ServerResponseError ''404'' ''task not found''), Suc srv) else (Inr (), Suc srv)),
      schedules_add_to_schedule = (\<lambda>srv sid w ty. (Inr (), Suc srv))\<rparr>
     (Some [\<lparr>tsk_id = ''t0'', tsk_target = None, tsk_schedule_item = \<lparr>sch_id = ''s1'', sch_name = ''Nightly''\<rparr>\<rparr>,
            \<lparr>tsk_id = ''t1'', tsk_target = Some \<lparr>tgt_id = ''w1'', tgt_type = ''workbook''\<rparr>, tsk_schedule_item = \<lparr>sch_id = ''s1'', sch_name = ''Nightly''\<rparr>\<rparr>])
     (Some [(''w1'', \<lparr>wb_id = ''w1'', wb_name = ''Report1'', wb_project_id = ''p'', wb_project_name = ''Default''\<rparr>)])
     \<lparr>r_server = 0, r_calls = [], r_stdin = [], r_out = [], r_count = 0, r_table = []\<rparr>)) = []"
  by (simp add: remove_materialized_views_tasks_def)

section \<open>Properties: adding workbooks to a schedule\<close>

lemma workbook_id_to_task_loop_lookup:
  "workbook_id_to_task_loop tasks m = Inr m' \<Longrightarrow>
   map_of m' i = (case existing_task tasks i of None \<Rightarrow> map_of m i | Some t \<Rightarrow> Some t)"
proof (induction tasks arbitrary: m)
  case Nil
  then show ?case by (simp add: existing_task_def)
next
  case (Cons task tasks)
  from Cons.prems obtain target where target: "tsk_target task = Some target"
    by (auto split: option.splits)
  show ?case
  proof (cases "tgt_type target = ''workbook''")
    case False
    with target Cons.prems have "workbook_id_to_task_loop tasks m = Inr m'" by simp
    from Cons.IH [OF this] False target show ?thesis
      by (simp add: existing_task_def targets_workbook_def)
  next
    case True
    with target Cons.prems have
      "workbook_id_to_task_loop tasks (AList.update (tgt_id target) task m) = Inr m'" by simp
    from Cons.IH [OF this] True target show ?thesis
      by (auto simp: existing_task_def targets_workbook_def update_conv' split: list.splits)
  qed
qed

lemma add_membership_calls:
  "r_calls (snd (add_membership api schedule w st)) =
     r_calls st @ [SchedulesAddToSchedule (sch_id schedule) (wb_id w) ''materializeViews'']"
  by (auto simp: add_membership_def except_server_response_error_def
        split: prod.splits sum.splits py_error.splits)

lemma except_server_response_error_calls:
  "r_calls (snd (except_server_response_error e st)) = r_calls st"
  by (auto simp: except_server_response_error_def split: py_error.splits)

lemma workbook_id_to_task_loop_total:
  "\<forall>task \<in> set tasks. tsk_target task \<noteq> None \<Longrightarrow> \<exists>m'. workbook_id_to_task_loop tasks m = Inr m'"
  by (induction tasks arbitrary: m) auto

lemma add_workbook_step:
  assumes "workbook_id_to_task_loop tasks [] = Inr m"
  shows
  "map_of m (wb_id w) = existing_task tasks (wb_id w) \<and>
   (existing_task tasks (wb_id w) = None \<longrightarrow>
      r_calls (snd (add_workbook api m schedule w st)) =
        r_calls st @ [SchedulesAddToSchedule (sch_id schedule) (wb_id w) ''materializeViews'']) \<and>
   (\<forall>task. existing_task tasks (wb_id w) = Some task \<longrightarrow>
      (sch_id (tsk_schedule_item task) = sch_id schedule \<longrightarrow>
         (\<exists>st'. add_workbook api m schedule w st = (None, st') \<and>
            r_calls st' = r_calls st \<and> r_server st' = r_server st \<and>
            r_count st' = r_count st \<and>
            r_table st' = r_table st @ [[label w, sch_name schedule]])) \<and>
      (sch_id (tsk_schedule_item task) \<noteq> sch_id schedule \<longrightarrow>
         (\<forall>rest prompts.
            confirm (replace_question schedule) (r_stdin st) = (Inr False, rest, prompts) \<longrightarrow>
              (\<exists>st'. add_workbook api m schedule w st = (None, st') \<and>
                 r_calls st' = r_calls st \<and> r_server st' = r_server st \<and>
                 r_count st' = r_count st \<and>
                 r_table st' = r_table st @ [[label w, sch_name (tsk_schedule_item task)]])) \<and>
         (\<forall>rest prompts.
            confirm (replace_question schedule) (r_stdin st) = (Inr True, rest, prompts) \<longrightarrow>
              r_calls (snd (add_workbook api m schedule w st)) =
                r_calls st @ TasksDelete (tsk_id task) MaterializeViews
                  # (if isl (fst (tasks_delete api (r_server st) (tsk_id task) MaterializeViews))
                     then []
                     else [SchedulesAddToSchedule (sch_id schedule) (wb_id w)
                             ''materializeViews''])))) \<and>
   r_calls (snd (add_to_materialized_views_schedule api (Some tasks) (Some schedule)
                   (Some [(k, w)]) st)) =
     r_calls (snd (add_workbook api m schedule w (st\<lparr>r_count := 0, r_table := []\<rparr>)))"
proof -
  note m = assms
  have look: "map_of m (wb_id w) = existing_task tasks (wb_id w)"
    using workbook_id_to_task_loop_lookup [OF m, of "wb_id w"]
    by (simp split: option.splits)
  have a: "existing_task tasks (wb_id w) = None \<longrightarrow>
      r_calls (snd (add_workbook api m schedule w st)) =
        r_calls st @ [SchedulesAddToSchedule (sch_id schedule) (wb_id w) ''materializeViews'']"
    using look by (simp add: add_workbook_def add_membership_calls)
  have b: "\<And>task. existing_task tasks (wb_id w) = Some task \<Longrightarrow>
      sch_id (tsk_schedule_item task) = sch_id schedule \<Longrightarrow>
         (\<exists>st'. add_workbook api m schedule w st = (None, st') \<and>
            r_calls st' = r_calls st \<and> r_server st' = r_server st \<and>
            r_count st' = r_count st \<and>
            r_table st' = r_table st @ [[label w, sch_name schedule]])"
    using look by (simp add: add_workbook_def Let_def)
  have c: "\<And>task rest prompts. existing_task tasks (wb_id w) = Some task \<Longrightarrow>
      sch_id (tsk_schedule_item task) \<noteq> sch_id schedule \<Longrightarrow>
      confirm (replace_question schedule) (r_stdin st) = (Inr False, rest, prompts) \<Longrightarrow>
         (\<exists>st'. add_workbook api m schedule w st = (None, st') \<and>
            r_calls st' = r_calls st \<and> r_server st' = r_server st \<and>
            r_count st' = r_count st \<and>
            r_table st' = r_table st @ [[label w, sch_name (tsk_schedule_item task)]])"
    using look by (simp add: add_workbook_def Let_def)
  have d: "\<And>task rest prompts. existing_task tasks (wb_id w) = Some task \<Longrightarrow>
      sch_id (tsk_schedule_item task) \<noteq> sch_id schedule \<Longrightarrow>
      confirm (replace_question schedule) (r_stdin st) = (Inr True, rest, prompts) \<Longrightarrow>
      r_calls (snd (add_workbook api m schedule w st)) =
        r_calls st @ TasksDelete (tsk_id task) MaterializeViews
          # (if isl (fst (tasks_delete api (r_server st) (tsk_id task) MaterializeViews))
             then []
             else [SchedulesAddToSchedule (sch_id schedule) (wb_id w) ''materializeViews''])"
    using look
    by (auto simp: add_workbook_def Let_def add_membership_calls
          except_server_response_error_calls split: prod.splits sum.splits)
  have e: "r_calls (snd (add_to_materialized_views_schedule api (Some tasks) (Some schedule)
                   (Some [(k, w)]) st)) =
     r_calls (snd (add_workbook api m schedule w (st\<lparr>r_count := 0, r_table := []\<rparr>)))"
    using m
    by (auto simp: add_to_materialized_views_schedule_def split: prod.splits option.splits)
  from look a b c d e show ?thesis
    by (intro conjI) blast+
qed

text \<open>
  C1 (as amended). Let every task of the listing have a target. Then the function builds
  its dictionary from workbook ids to tasks, which holds for each workbook the last task
  of the listing whose target has the type \<open>workbook\<close> and the id of the workbook. For
  a workbook of the loop: when no task is on record for it, the call that adds it to the
  schedule is made; when the task on record is on the schedule that was asked for, no
  call is made and the row names that schedule; when it is on another schedule and the
  user declines, no call is made, nothing is counted and the row names the schedule of
  the task on record; when the user accepts, the delete call for the old task is made
  first, and the call that adds the workbook follows it exactly when the delete
  succeeded. For a single requested workbook the calls of the whole function are the
  calls of this step.
\<close>

theorem add_workbook_cases:
  "((\<forall>task \<in> set tasks. tsk_target task \<noteq> None) \<longrightarrow>
      (\<exists>m. workbook_id_to_task_loop tasks [] = Inr m)) \<and>
   (\<forall>m. workbook_id_to_task_loop tasks [] = Inr m \<longrightarrow>
   map_of m (wb_id w) = existing_task tasks (wb_id w) \<and>
      (existing_task tasks (wb_id w) = None \<longrightarrow>
         r_calls (snd (add_workbook api m schedule w st)) =
           r_calls st @ [SchedulesAddToSchedule (sch_id schedule) (wb_id w) ''materializeViews'']) \<and>
      (\<forall>task. existing_task tasks (wb_id w) = Some task \<longrightarrow>
         (sch_id (tsk_schedule_item task) = sch_id schedule \<longrightarrow>
            (\<exists>st'. add_workbook api m schedule w st = (None, st') \<and>
               r_calls st' = r_calls st \<and> r_server st' = r_server st \<and>
               r_count st' = r_count st \<and>
               r_table st' = r_table st @ [[label w, sch_name schedule]])) \<and>
         (sch_id (tsk_schedule_item task) \<noteq> sch_id schedule \<longrightarrow>
            (\<forall>rest prompts.
               confirm (replace_question schedule) (r_stdin st) = (Inr False, rest, prompts) \<longrightarrow>
                 (\<exists>st'. add_workbook api m schedule w st = (None, st') \<and>
                    r_calls st' = r_calls st \<and> r_server st' = r_server st \<and>
                    r_count st' = r_count st \<and>
                    r_table st' = r_table st @ [[label w, sch_name (tsk_schedule_item task)]])) \<and>
            (\<forall>rest prompts.
               confirm (replace_question schedule) (r_stdin st) = (Inr True, rest, prompts) \<longrightarrow>
                 r_calls (snd (add_workbook api m schedule w st)) =
                   r_calls st @ TasksDelete (tsk_id task) MaterializeViews
                     # (if isl (fst (tasks_delete api (r_server st) (tsk_id task) MaterializeViews))
                        then []
                        else [SchedulesAddToSchedule (sch_id schedule) (wb_id w)
                                ''materializeViews''])))) \<and>
      r_calls (snd (add_to_materialized_views_schedule api (Some tasks) (Some schedule)
                      (Some [(k, w)]) st)) =
        r_calls (snd (add_workbook api m schedule w (st\<lparr>r_count := 0, r_table := []\<rparr>))))"
  using workbook_id_to_task_loop_total [of tasks "[]"]
    add_workbook_step [of tasks _ w api schedule st k]
  by blast

lemma confirm_decline: "confirm message [''maybe'', ''N''] = (Inr False, [], [Prompt message, Prompt message])"
  by (simp add: lower_def lower_char_def)

lemma confirm_accept: "confirm message [''Y''] = (Inr True, [], [Prompt message])"
  by (simp add: lower_def lower_char_def)

theorem add_workbook_cases_witness:
  "workbook_id_to_task_loop [\<lparr>tsk_id = ''t1'', tsk_target = Some \<lparr>tgt_id = ''w1'', tgt_type = ''workbook''\<rparr>,
        tsk_schedule_item = \<lparr>sch_id = ''s1'', sch_name = ''Nightly''\<rparr>\<rparr>,
      \<lparr>tsk_id = ''t5'', tsk_target = Some \<lparr>tgt_id = ''w2'', tgt_type = ''datasource''\<rparr>,
        tsk_schedule_item = \<lparr>sch_id = ''s1'', sch_name = ''Nightly''\<rparr>\<rparr>] [] = Inr [(''w1'', \<lparr>tsk_id = ''t1'', tsk_target = Some \<lparr>tgt_id = ''w1'', tgt_type = ''workbook''\<rparr>,
        tsk_schedule_item = \<lparr>sch_id = ''s1'', sch_name = ''Nightly''\<rparr>\<rparr>)] \<and>
   (\<exists>st'. add_workbook \<lparr>tasks_delete = (\<lambda>srv i ty. (Inr (), Suc srv)),
      schedules_add_to_schedule = (\<lambda>srv sid w ty. (Inr (), Suc srv))\<rparr> [(''w1'', \<lparr>tsk_id = ''t1'', tsk_target = Some \<lparr>tgt_id = ''w1'', tgt_type = ''workbook''\<rparr>,
        tsk_schedule_item = \<lparr>sch_id = ''s1'', sch_name = ''Nightly''\<rparr>\<rparr>)] \<lparr>sch_id = ''s2'', sch_name = ''Hourly''\<rparr> \<lparr>wb_id = ''w1'', wb_name = ''Report1'', wb_project_id = ''p'', wb_project_name = ''Default''\<rparr> \<lparr>r_server = 0, r_calls = [], r_stdin = [''maybe'', ''N''], r_out = [], r_count = 0, r_table = []\<rparr> = (None, st') \<and>
      r_calls st' = [] \<and> r_count st' = 0 \<and> r_table st' = [[''Default/Report1'', ''Nightly'']]) \<and>
   r_calls (snd (add_workbook \<lparr>tasks_delete = (\<lambda>srv i ty. (Inr (), Suc srv)),
      schedules_add_to_schedule = (\<lambda>srv sid w ty. (Inr (), Suc srv))\<rparr> [(''w1'', \<lparr>tsk_id = ''t1'', tsk_target = Some \<lparr>tgt_id = ''w1'', tgt_type = ''workbook''\<rparr>,
        tsk_schedule_item = \<lparr>sch_id = ''s1'', sch_name = ''Nightly''\<rparr>\<rparr>)] \<lparr>sch_id = ''s2'', sch_name = ''Hourly''\<rparr> \<lparr>wb_id = ''w1'', wb_name = ''Report1'', wb_project_id = ''p'', wb_project_name = ''Default''\<rparr> \<lparr>r_server = 0, r_calls = [], r_stdin = [''Y''], r_out = [], r_count = 0, r_table = []\<rparr>)) =
     [TasksDelete ''t1'' ''materializeViews'', SchedulesAddToSchedule ''s2'' ''w1'' ''materializeViews''] \<and>
   (\<exists>st'. add_workbook \<lparr>tasks_delete = (\<lambda>srv i ty. (Inr (), Suc srv)),
      schedules_add_to_schedule = (\<lambda>srv sid w ty. (Inr (), Suc srv))\<rparr> [(''w1'', \<lparr>tsk_id = ''t1'', tsk_target = Some \<lparr>tgt_id = ''w1'', tgt_type = ''workbook''\<rparr>,
        tsk_schedule_item = \<lparr>sch_id = ''s1'', sch_name = ''Nightly''\<rparr>\<rparr>)] \<lparr>sch_id = ''s1'', sch_name = ''Nightly''\<rparr> \<lparr>wb_id = ''w1'', wb_name = ''Report1'', wb_project_id = ''p'', wb_project_name = ''Default''\<rparr> \<lparr>r_server = 0, r_calls = [], r_stdin = [], r_out = [], r_count = 0, r_table = []\<rparr> = (None, st') \<and>
      r_calls st' = [] \<and> r_table st' = [[''Default/Report1'', ''Nightly'']]) \<and>
   r_calls (snd (add_workbook \<lparr>tasks_delete = (\<lambda>srv i ty. (Inr (), Suc srv)),
      schedules_add_to_schedule = (\<lambda>srv sid w ty. (Inr (), Suc srv))\<rparr> [(''w1'', \<lparr>tsk_id = ''t1'', tsk_target = Some \<lparr>tgt_id = ''w1'', tgt_type = ''workbook''\<rparr>,
        tsk_schedule_item = \<lparr>sch_id = ''s1'', sch_name = ''Nightly''\<rparr>\<rparr>)] \<lparr>sch_id = ''s2'', sch_name = ''Hourly''\<rparr> \<lparr>wb_id = ''w2'', wb_name = ''Report2'', wb_project_id = ''p'', wb_project_name = ''Default''\<rparr> \<lparr>r_server = 0, r_calls = [], r_stdin = [], r_out = [], r_count = 0, r_table = []\<rparr>)) =
     [SchedulesAddToSchedule ''s2'' ''w2'' ''materializeViews'']"
proof -
  let ?api = "\<lparr>tasks_delete = (\<lambda>srv i ty. (Inr (), Suc srv)),
      schedules_add_to_schedule = (\<lambda>srv sid w ty. (Inr (), Suc srv))\<rparr> :: nat server_api"
  let ?t1 = "\<lparr>tsk_id = ''t1'', tsk_target = Some \<lparr>tgt_id = ''w1'', tgt_type = ''workbook''\<rparr>,
        tsk_schedule_item = \<lparr>sch_id = ''s1'', sch_name = ''Nightly''\<rparr>\<rparr>"
  let ?tasks = "[\<lparr>tsk_id = ''t1'', tsk_target = Some \<lparr>tgt_id = ''w1'', tgt_type = ''workbook''\<rparr>,
        tsk_schedule_item = \<lparr>sch_id = ''s1'', sch_name = ''Nightly''\<rparr>\<rparr>,
      \<lparr>tsk_id = ''t5'', tsk_target = Some \<lparr>tgt_id = ''w2'', tgt_type = ''datasource''\<rparr>,
        tsk_schedule_item = \<lparr>sch_id = ''s1'', sch_name = ''Nightly''\<rparr>\<rparr>]"
  let ?hourly = "\<lparr>sch_id = ''s2'', sch_name = ''Hourly''\<rparr>"
  let ?nightly = "\<lparr>sch_id = ''s1'', sch_name = ''Nightly''\<rparr>"
  let ?w1 = "\<lparr>wb_id = ''w1'', wb_name = ''Report1'', wb_project_id = ''p'', wb_project_name = ''Default''\<rparr>"
  let ?w2 = "\<lparr>wb_id = ''w2'', wb_name = ''Report2'', wb_project_id = ''p'', wb_project_name = ''Default''\<rparr>"
  let ?decline = "\<lparr>r_server = 0, r_calls = [], r_stdin = [''maybe'', ''N''], r_out = [], r_count = 0, r_table = []\<rparr> :: nat run"
  let ?accept = "\<lparr>r_server = 0, r_calls = [], r_stdin = [''Y''], r_out = [], r_count = 0, r_table = []\<rparr> :: nat run"
  let ?empty = "\<lparr>r_server = 0, r_calls = [], r_stdin = [], r_out = [], r_count = 0, r_table = []\<rparr> :: nat run"
  have m: "workbook_id_to_task_loop ?tasks [] = Inr [(''w1'', ?t1)]"
    by simp
  have e1: "existing_task ?tasks (wb_id ?w1) = Some ?t1"
    by (simp add: existing_task_def targets_workbook_def)
  have e2: "existing_task ?tasks (wb_id ?w2) = None"
    by (simp add: existing_task_def targets_workbook_def)
  have other: "sch_id (tsk_schedule_item ?t1) \<noteq> sch_id ?hourly" by simp
  have same: "sch_id (tsk_schedule_item ?t1) = sch_id ?nightly" by simp
  have no: "confirm (replace_question ?hourly) (r_stdin ?decline)
      = (Inr False, [], [Prompt (replace_question ?hourly), Prompt (replace_question ?hourly)])"
    by (simp del: confirm.simps add: confirm_decline)
  have yes: "confirm (replace_question ?hourly) (r_stdin ?accept)
      = (Inr True, [], [Prompt (replace_question ?hourly)])"
    by (simp del: confirm.simps add: confirm_accept)
  have a: "\<exists>st'. add_workbook ?api [(''w1'', ?t1)] ?hourly ?w1 ?decline = (None, st') \<and>
      r_calls st' = r_calls ?decline \<and> r_server st' = r_server ?decline \<and>
      r_count st' = r_count ?decline \<and>
      r_table st' = r_table ?decline @ [[label ?w1, sch_name (tsk_schedule_item ?t1)]]"
    using add_workbook_cases [where tasks = ?tasks and w = ?w1 and api = ?api and schedule = ?hourly
        and st = ?decline, THEN conjunct2, rule_format, OF m] e1 other no
    by blast
  have b: "r_calls (snd (add_workbook ?api [(''w1'', ?t1)] ?hourly ?w1 ?accept)) =
      r_calls ?accept @ TasksDelete (tsk_id ?t1) MaterializeViews
        # (if isl (fst (tasks_delete ?api (r_server ?accept) (tsk_id ?t1) MaterializeViews))
           then []
           else [SchedulesAddToSchedule (sch_id ?hourly) (wb_id ?w1) ''materializeViews''])"
    using add_workbook_cases [where tasks = ?tasks and w = ?w1 and api = ?api and schedule = ?hourly
        and st = ?accept, THEN conjunct2, rule_format, OF m] e1 other yes
    by blast
  have c: "\<exists>st'. add_workbook ?api [(''w1'', ?t1)] ?nightly ?w1 ?empty = (None, st') \<and>
      r_calls st' = r_calls ?empty \<and> r_server st' = r_server ?empty \<and>
      r_count st' = r_count ?empty \<and>
      r_table st' = r_table ?empty @ [[label ?w1, sch_name ?nightly]]"
    using add_workbook_cases [where tasks = ?tasks and w = ?w1 and api = ?api and schedule = ?nightly
        and st = ?empty, THEN conjunct2, rule_format, OF m] e1 same
    by blast
  have d: "r_calls (snd (add_workbook ?api [(''w1'', ?t1)] ?hourly ?w2 ?empty)) =
      r_calls ?empty @ [SchedulesAddToSchedule (sch_id ?hourly) (wb_id ?w2) ''materializeViews'']"
    using add_workbook_cases [where tasks = ?tasks and w = ?w2 and api = ?api and schedule = ?hourly
        and st = ?empty, THEN conjunct2, rule_format, OF m] e2
    by blast
  from a have a': "\<exists>st'. add_workbook ?api [(''w1'', ?t1)] ?hourly ?w1 ?decline = (None, st') \<and>
      r_calls st' = [] \<and> r_count st' = 0 \<and> r_table st' = [[''Default/Report1'', ''Nightly'']]"
    by (auto simp: label_def)
  from b have b': "r_calls (snd (add_workbook ?api [(''w1'', ?t1)] ?hourly ?w1 ?accept)) =
     [TasksDelete ''t1'' ''materializeViews'', SchedulesAddToSchedule ''s2'' ''w1'' ''materializeViews'']"
    by (simp add: MaterializeViews_def)
  from c have c': "\<exists>st'. add_workbook ?api [(''w1'', ?t1)] ?nightly ?w1 ?empty = (None, st') \<and>
      r_calls st' = [] \<and> r_table st' = [[''Default/Report1'', ''Nightly'']]"
    by (auto simp: label_def)
  from d have d': "r_calls (snd (add_workbook ?api [(''w1'', ?t1)] ?hourly ?w2 ?empty)) =
     [SchedulesAddToSchedule ''s2'' ''w2'' ''materializeViews'']"
    by simp
  from m a' b' c' d' show ?thesis by blast
qed

theorem add_workbook_no_target_counterexample:
  "existing_task [\<lparr>tsk_id = ''t0'', tsk_target = None,
        tsk_schedule_item = \<lparr>sch_id = ''s1'', sch_name = ''Nightly''\<rparr>\<rparr>] ''w1'' = None \<and>
   add_to_materialized_views_schedule
     \<lparr>tasks_delete = (\<lambda>srv i ty. (Inr (), Suc srv)),
      schedules_add_to_schedule = (\<lambda>srv sid w ty. (Inr (), Suc srv))\<rparr>
     (Some [\<lparr>tsk_id = ''t0'', tsk_target = None,
        tsk_schedule_item = \<lparr>sch_id = ''s1'', sch_name = ''Nightly''\<rparr>\<rparr>])
     (Some \<lparr>sch_id = ''s2'', sch_name = ''Hourly''\<rparr>)
     (Some [(''w1'', \<lparr>wb_id = ''w1'', wb_name = ''Report1'', wb_project_id = ''p'', wb_project_name = ''Default''\<rparr>)])
     \<lparr>r_server = 0, r_calls = [], r_stdin = [], r_out = [], r_count = 0, r_table = []\<rparr>
   = (Inl AttributeError, \<lparr>r_server = 0, r_calls = [], r_stdin = [], r_out = [], r_count = 0, r_table = []\<rparr>)"
  by (simp add: existing_task_def targets_workbook_def add_to_materialized_views_schedule_def)

section \<open>Properties: creating a schedule\<close>
























end
